theory Spec2Isabelle
  imports Main "HOL-Library.Word"
begin

unbundle bit_operations_syntax

section \<open>Bytes and host integers in memory\<close>

text \<open>
  \<open>std::byte\<close>, \<open>uint8_t\<close> and \<open>char\<close> are one byte wide
  (\<open>static_assert(sizeof(value_type) == 1)\<close>). The sizes \<open>size_t\<close> are modelled
  as \<open>nat\<close>; the two places where the source narrows a \<open>size_t\<close> to a signed
  integer (\<open>to_socket\<close>, \<open>add_socket\<close>) write the conversion out.
\<close>

type_synonym byte = "8 word"

text \<open>
  \<open>add(&x, sizeof(x))\<close> and \<open>to_buf(&tmp, sizeof(tmp))\<close> read and write the object
  representation of an integer: its bytes at increasing addresses. That depends on the
  host, so the host's byte order is a parameter of the codec.
\<close>

datatype endian = LittleEndian | BigEndian

definition le_bytes :: "nat \<Rightarrow> 'a::len word \<Rightarrow> byte list" where
  "le_bytes n w = map (\<lambda>i. ucast (drop_bit (8 * i) w)) [0..<n]"

fun word_of_le :: "byte list \<Rightarrow> 'a::len word" where
  "word_of_le [] = 0"
| "word_of_le (b # bs) = ucast b OR push_bit 8 (word_of_le bs)"

definition object_bytes :: "endian \<Rightarrow> nat \<Rightarrow> 'a::len word \<Rightarrow> byte list" where
  "object_bytes e n w =
     (case e of LittleEndian \<Rightarrow> le_bytes n w | BigEndian \<Rightarrow> rev (le_bytes n w))"

definition object_value :: "endian \<Rightarrow> byte list \<Rightarrow> 'a::len word" where
  "object_value e bs =
     (case e of LittleEndian \<Rightarrow> word_of_le bs | BigEndian \<Rightarrow> word_of_le (rev bs))"

text \<open>
  \<open>htons\<close>, \<open>htonl\<close>, \<open>ntohs\<close> and \<open>ntohl\<close> are the platform's functions,
  not code of \<open>tr-buffer.h\<close>. They convert between host order and network
  (big-endian) order: the identity on a big-endian host, the reversal of the value's
  bytes on a little-endian one.
\<close>

definition byte_swap :: "nat \<Rightarrow> 'a::len word \<Rightarrow> 'a word" where
  "byte_swap n w = word_of_le (rev (le_bytes n w))"

definition htons :: "endian \<Rightarrow> 16 word \<Rightarrow> 16 word" where
  "htons e hs = (case e of LittleEndian \<Rightarrow> byte_swap 2 hs | BigEndian \<Rightarrow> hs)"

definition ntohs :: "endian \<Rightarrow> 16 word \<Rightarrow> 16 word" where
  "ntohs e ns = (case e of LittleEndian \<Rightarrow> byte_swap 2 ns | BigEndian \<Rightarrow> ns)"

definition htonl :: "endian \<Rightarrow> 32 word \<Rightarrow> 32 word" where
  "htonl e hl = (case e of LittleEndian \<Rightarrow> byte_swap 4 hl | BigEndian \<Rightarrow> hl)"

definition ntohl :: "endian \<Rightarrow> 32 word \<Rightarrow> 32 word" where
  "ntohl e nl = (case e of LittleEndian \<Rightarrow> byte_swap 4 nl | BigEndian \<Rightarrow> nl)"

text \<open>
  Modelled from the spec: \<open>tr_htonll\<close> and \<open>tr_ntohll\<close> are declared in
  \<open>utils.h\<close>, which is not among the sources. The specification has the 64-bit
  encoder convert a host-order integer to network byte order and the decoder convert
  back to host order, as the 16-bit and 32-bit ones do.
\<close>

definition tr_htonll :: "endian \<Rightarrow> 64 word \<Rightarrow> 64 word" where
  "tr_htonll e hll = (case e of LittleEndian \<Rightarrow> byte_swap 8 hll | BigEndian \<Rightarrow> hll)"

definition tr_ntohll :: "endian \<Rightarrow> 64 word \<Rightarrow> 64 word" where
  "tr_ntohll e nll = (case e of LittleEndian \<Rightarrow> byte_swap 8 nll | BigEndian \<Rightarrow> nll)"

section \<open>BufferReader\<close>

text \<open>
  The class template has three pure virtual members, \<open>drain\<close>, \<open>size\<close> and
  \<open>data\<close>; everything else is written against them. The virtual table is a record of
  functions over the state \<open>'b\<close> of the concrete buffer. \<open>data()\<close> yields the
  run of bytes that starts at the returned pointer and the object after the call:
  \<open>Buffer::data()\<close>, also the \<open>const\<close> overload, rearranges the store it points to.
\<close>

record 'b BufferReader =
  rd_drain :: "nat \<Rightarrow> 'b \<Rightarrow> 'b"
  rd_size :: "'b \<Rightarrow> nat"
  rd_data :: "'b \<Rightarrow> byte list \<times> 'b"

definition empty_buf :: "'b BufferReader \<Rightarrow> 'b \<Rightarrow> bool" where
  "empty_buf R b = (rd_size R b = 0)"

text \<open>
  \<open>to_string_call\<close> is the member \<open>to_string()\<close>: the initialiser list
  \<open>{ data(), size() }\<close> is evaluated from left to right, and the object is left as
  \<open>data()\<close> left it. \<open>to_string\<close> is the string alone, the first \<open>size()\<close> bytes
  at \<open>data()\<close> with \<open>size()\<close> taken beforehand, as \<open>starts_with\<close> and
  \<open>to_buf\<close> take it; the theorems use it for the logical content of a buffer. The two
  strings are the same when \<open>data()\<close> leaves \<open>size()\<close> as it was, which
  both buffers do.
\<close>

definition to_string_call :: "'b BufferReader \<Rightarrow> 'b \<Rightarrow> byte list \<times> 'b" where
  "to_string_call R b =
     (let (d, b1) = rd_data R b;
          n = rd_size R b1
      in (take n d, b1))"

definition to_string :: "'b BufferReader \<Rightarrow> 'b \<Rightarrow> byte list" where
  "to_string R b = take (rd_size R b) (fst (rd_data R b))"

text \<open>
  \<open>std::equal(first1, last1, first2)\<close> walks the needle and reads the second range at
  the same positions. The third equation is a read past the end of the second range; the
  guard \<open>n_bytes <= size()\<close> of \<open>starts_with\<close> keeps the call away from it.
\<close>

fun std_equal :: "byte list \<Rightarrow> byte list \<Rightarrow> bool" where
  "std_equal [] ys = True"
| "std_equal (x # xs) (y # ys) = (x = y \<and> std_equal xs ys)"
| "std_equal (x # xs) [] = False"

definition starts_with :: "'b BufferReader \<Rightarrow> byte list \<Rightarrow> 'b \<Rightarrow> bool" where
  "starts_with R needle b =
     (let n_bytes = length needle
      in n_bytes \<le> rd_size R b \<and> std_equal needle (fst (rd_data R b)))"

text \<open>
  \<open>to_buf\<close> returns the bytes it stored at \<open>tgt\<close>, the count, and the buffer after
  \<open>data()\<close> and the drain.
\<close>

definition to_buf :: "'b BufferReader \<Rightarrow> nat \<Rightarrow> 'b \<Rightarrow> (byte list \<times> nat) \<times> 'b" where
  "to_buf R n_bytes b =
     (let n = min n_bytes (rd_size R b);
          (d, b1) = rd_data R b;
          tgt = take n d
      in ((tgt, n), rd_drain R n b1))"

text \<open>
  The scalar decoders start from \<open>tmp = 0\<close>, let \<open>to_buf\<close> overwrite the first
  bytes of \<open>tmp\<close>'s object representation, and convert what \<open>tmp\<close> then holds.
\<close>

definition to_uint8 :: "endian \<Rightarrow> 'b BufferReader \<Rightarrow> 'b \<Rightarrow> 8 word \<times> 'b" where
  "to_uint8 e R b =
     (let tmp0 = object_bytes e 1 (0 :: 8 word);
          ((got, n), b') = to_buf R 1 b;
          tmp = object_value e (got @ drop n tmp0)
      in (tmp, b'))"

definition to_uint16 :: "endian \<Rightarrow> 'b BufferReader \<Rightarrow> 'b \<Rightarrow> 16 word \<times> 'b" where
  "to_uint16 e R b =
     (let tmp0 = object_bytes e 2 (0 :: 16 word);
          ((got, n), b') = to_buf R 2 b;
          tmp = object_value e (got @ drop n tmp0)
      in (ntohs e tmp, b'))"

definition to_uint32 :: "endian \<Rightarrow> 'b BufferReader \<Rightarrow> 'b \<Rightarrow> 32 word \<times> 'b" where
  "to_uint32 e R b =
     (let tmp0 = object_bytes e 4 (0 :: 32 word);
          ((got, n), b') = to_buf R 4 b;
          tmp = object_value e (got @ drop n tmp0)
      in (ntohl e tmp, b'))"

definition to_uint64 :: "endian \<Rightarrow> 'b BufferReader \<Rightarrow> 'b \<Rightarrow> 64 word \<times> 'b" where
  "to_uint64 e R b =
     (let tmp0 = object_bytes e 8 (0 :: 64 word);
          ((got, n), b') = to_buf R 8 b;
          tmp = object_value e (got @ drop n tmp0)
      in (tr_ntohll e tmp, b'))"

section \<open>BufferWriter\<close>

text \<open>
  Two pure virtual members, \<open>reserve_space\<close> and \<open>commit_space\<close>.
  \<open>reserve_space\<close> returns a pointer and a capacity; the pointer is modelled as a
  number that designates a place in the buffer's writable storage (a position in a
  \<open>SmallBuffer\<close>'s vector, one of the free regions of a \<open>Buffer\<close>'s store), and
  \<open>wr_copy_n p src\<close> is \<open>std::copy_n(src, len, p)\<close>, the write through that
  pointer.
\<close>

record 'b BufferWriter =
  wr_commit_space :: "nat \<Rightarrow> 'b \<Rightarrow> 'b"
  wr_reserve_space :: "nat \<Rightarrow> 'b \<Rightarrow> (nat \<times> nat) \<times> 'b"
  wr_copy_n :: "nat \<Rightarrow> byte list \<Rightarrow> 'b \<Rightarrow> 'b"

definition add :: "'b BufferWriter \<Rightarrow> byte list \<Rightarrow> 'b \<Rightarrow> 'b" where
  "add W span b =
     (let span_len = length span;
          ((buf, buflen), b1) = wr_reserve_space W span_len b;
          b2 = wr_copy_n W buf span b1
      in wr_commit_space W span_len b2)"

definition push_back :: "'b BufferWriter \<Rightarrow> byte \<Rightarrow> 'b \<Rightarrow> 'b" where
  "push_back W ch b = add W [ch] b"

definition add_uint8 :: "'b BufferWriter \<Rightarrow> 8 word \<Rightarrow> 'b \<Rightarrow> 'b" where
  "add_uint8 W uch b = add W [uch] b"

definition add_uint16 :: "endian \<Rightarrow> 'b BufferWriter \<Rightarrow> 16 word \<Rightarrow> 'b \<Rightarrow> 'b" where
  "add_uint16 e W hs b = (let ns = htons e hs in add W (object_bytes e 2 ns) b)"

definition add_uint32 :: "endian \<Rightarrow> 'b BufferWriter \<Rightarrow> 32 word \<Rightarrow> 'b \<Rightarrow> 'b" where
  "add_uint32 e W hl b = (let nl = htonl e hl in add W (object_bytes e 4 nl) b)"

definition add_uint64 :: "endian \<Rightarrow> 'b BufferWriter \<Rightarrow> 64 word \<Rightarrow> 'b \<Rightarrow> 'b" where
  "add_uint64 e W hll b = (let nll = tr_htonll e hll in add W (object_bytes e 8 nll) b)"

text \<open>
  A write of \<open>src\<close> at position \<open>p\<close> of a storage \<open>mem\<close>: the bytes that fall inside
  the storage replace what was there, the storage keeps its length.
\<close>

definition overwrite :: "nat \<Rightarrow> byte list \<Rightarrow> byte list \<Rightarrow> byte list" where
  "overwrite p src mem = take (length mem) (take p mem @ src @ drop (p + length src) mem)"

section \<open>The growable store behind Buffer\<close>

text \<open>
  \<open>Buffer\<close> owns an \<open>evbuffer\<close> of libevent (\<open><event2/buffer.h>\<close>), an external
  library whose code is not part of \<open>tr-buffer.h\<close>. The calls the class makes are
  modelled by what libevent documents for them and by its chain mechanism: the store is
  a chain of segments. \<open>ev_chain\<close> is the segments that hold the committed, undrained
  bytes, in order, and \<open>ev_data\<close> their concatenation, the logical content.
  \<open>ev_space\<close> is the free space at the end of the last segment that holds data,
  \<open>ev_next\<close> the free space of an empty segment chained after it. How large the
  library makes a segment is its own choice; the model allocates what is asked for.
  \<^item> \<open>evbuffer_drain\<close> removes bytes from the front, segment by segment, and
    everything when asked for at least the length; an emptied store gives up its
    segments and their free space.
  \<^item> \<open>evbuffer_pullup(buf, -1)\<close> makes the whole content contiguous and returns
    its address (a null pointer when the store is empty): a store of several segments
    is rebuilt as one segment, and free space reserved before is gone.
  \<^item> \<open>evbuffer_reserve_space\<close> with one vector returns free space of at least the
    requested size, from the first place that has it: the end of the last segment with
    data (pointer \<open>0\<close>), else the empty segment after it (pointer \<open>1\<close>), else a
    new empty segment of that size. An empty store replaces its segment instead.
  \<^item> \<open>evbuffer_commit_space\<close> makes the first \<open>iov_len\<close> bytes of the region at
    \<open>iov_base\<close> the end of the content, and fails when the vector is not inside one
    of the two regions.
\<close>

record evbuffer =
  ev_chain :: "byte list list"
  ev_space :: "byte list"
  ev_next :: "byte list"

definition ev_data :: "evbuffer \<Rightarrow> byte list" where
  "ev_data buf = concat (ev_chain buf)"

definition evbuffer_new :: evbuffer where
  "evbuffer_new = \<lparr>ev_chain = [], ev_space = [], ev_next = []\<rparr>"

definition evbuffer_get_length :: "evbuffer \<Rightarrow> nat" where
  "evbuffer_get_length buf = length (ev_data buf)"

fun drain_chain :: "nat \<Rightarrow> byte list list \<Rightarrow> byte list list" where
  "drain_chain n [] = []"
| "drain_chain n (c # cs) =
     (if length c \<le> n then drain_chain (n - length c) cs else drop n c # cs)"

definition evbuffer_drain :: "evbuffer \<Rightarrow> nat \<Rightarrow> evbuffer" where
  "evbuffer_drain buf len =
     (if len \<ge> length (ev_data buf) then \<lparr>ev_chain = [], ev_space = [], ev_next = []\<rparr>
      else buf\<lparr>ev_chain := drain_chain len (ev_chain buf)\<rparr>)"

definition evbuffer_pullup :: "evbuffer \<Rightarrow> byte list \<times> evbuffer" where
  "evbuffer_pullup buf =
     (case ev_chain buf of
        [] \<Rightarrow> ([], buf)
      | [c] \<Rightarrow> (c, buf)
      | c # c' # cs \<Rightarrow>
          (concat (ev_chain buf),
           \<lparr>ev_chain = [concat (ev_chain buf)], ev_space = [], ev_next = []\<rparr>))"

definition evbuffer_reserve_space :: "evbuffer \<Rightarrow> nat \<Rightarrow> (nat \<times> nat) \<times> evbuffer" where
  "evbuffer_reserve_space buf sz =
     (if sz \<le> length (ev_space buf) then ((0, length (ev_space buf)), buf)
      else if ev_chain buf = []
        then ((0, sz), buf\<lparr>ev_space := replicate sz 0, ev_next := []\<rparr>)
      else if sz \<le> length (ev_next buf) then ((1, length (ev_next buf)), buf)
      else ((1, sz), buf\<lparr>ev_next := replicate sz 0\<rparr>))"

text \<open>Bytes committed at the end of the last segment lengthen it.\<close>

definition chain_append :: "byte list list \<Rightarrow> byte list \<Rightarrow> byte list list" where
  "chain_append chain bytes =
     (if bytes = [] then chain
      else if chain = [] then [bytes]
      else butlast chain @ [last chain @ bytes])"

definition evbuffer_commit_space :: "evbuffer \<Rightarrow> nat \<times> nat \<Rightarrow> evbuffer" where
  "evbuffer_commit_space buf iov =
     (case iov of (iov_base, iov_len) \<Rightarrow>
        if iov_base = 0 \<and> iov_len \<le> length (ev_space buf)
        then buf\<lparr>ev_chain := chain_append (ev_chain buf) (take iov_len (ev_space buf)),
                 ev_space := drop iov_len (ev_space buf)\<rparr>
        else if iov_base = 1 \<and> 0 < iov_len \<and> iov_len \<le> length (ev_next buf)
        then \<lparr>ev_chain = ev_chain buf @ [take iov_len (ev_next buf)],
              ev_space = drop iov_len (ev_next buf), ev_next = []\<rparr>
        else buf)"

text \<open>
  The socket is the environment. What it does at one call is a parameter: a write
  endpoint takes at most some number of bytes or fails with a platform error code; a
  read endpoint delivers bytes, reports the orderly close of the peer, or fails.

  \<open>evbuffer_write_atmost\<close> writes at most \<open>howmuch\<close> bytes from the front of the
  store (all of it when \<open>howmuch\<close> is negative or larger than the length), and, as
  libevent documents, drains the bytes that were written; it returns their number, or
  \<open>-1\<close> on failure and when there is nothing to write. \<open>evbuffer_read\<close> appends
  what the endpoint delivers, at most \<open>howmuch\<close> bytes when \<open>howmuch\<close> is not
  negative and as much as the library chooses to ask for when it is, and returns the
  count, \<open>0\<close> at end of file or when no byte was read, and \<open>-1\<close> on failure. How
  the bytes read are spread over segments is the library's choice: the model puts them
  in a segment of their own and keeps no reserved space. Both
  results carry the socket error code the call leaves behind, starting from the \<open>0\<close>
  that \<open>EVUTIL_SET_SOCKET_ERROR(0)\<close> stored.
\<close>

datatype write_endpoint = Accepts nat | WriteFails int

datatype read_endpoint = Delivers "byte list" | OrderlyClose | ReadFails int

definition evbuffer_write_atmost ::
    "evbuffer \<Rightarrow> write_endpoint \<Rightarrow> int \<Rightarrow> (int \<times> int) \<times> evbuffer" where
  "evbuffer_write_atmost buffer fd howmuch =
     (let total_len = int (length (ev_data buffer));
          howmuch' = (if howmuch < 0 \<or> howmuch > total_len then total_len else howmuch)
      in if howmuch' > 0
         then (case fd of
                 Accepts m \<Rightarrow>
                   (let n = min (int m) howmuch'
                    in ((n, 0), if n > 0 then evbuffer_drain buffer (nat n) else buffer))
               | WriteFails err \<Rightarrow> ((- 1, err), buffer))
         else ((- 1, 0), buffer))"

definition evbuffer_read ::
    "evbuffer \<Rightarrow> read_endpoint \<Rightarrow> int \<Rightarrow> (int \<times> int) \<times> evbuffer" where
  "evbuffer_read buf fd howmuch =
     (case fd of
        Delivers bs \<Rightarrow>
          (let got = (if howmuch < 0 then bs else take (nat howmuch) bs)
           in if got = [] then ((0, 0), buf)
              else ((int (length got), 0),
                    \<lparr>ev_chain = ev_chain buf @ [got], ev_space = [], ev_next = []\<rparr>))
      | OrderlyClose \<Rightarrow> ((0, 0), buf)
      | ReadFails err \<Rightarrow> ((- 1, err), buf))"

text \<open>
  Modelled from the spec: \<open>tr_error\<close>, \<open>tr_error_set\<close> and
  \<open>tr_error_set_from_errno\<close> are declared in \<open>error.h\<close>, which is not among the
  sources. The specification describes the error output as carrying a platform-level
  code and a human-readable message. The object is modelled by its code (the message is
  the platform's text for that code), the out parameter \<open>tr_error** error\<close> by an
  optional result. \<open>ENOTCONN\<close> is the platform's constant for a socket that is not
  connected; the value is that of Linux.
\<close>

record tr_error =
  err_code :: int

definition tr_error_set :: "int \<Rightarrow> tr_error" where
  "tr_error_set c = \<lparr>err_code = c\<rparr>"

definition tr_error_set_from_errno :: "int \<Rightarrow> tr_error" where
  "tr_error_set_from_errno errnum = \<lparr>err_code = errnum\<rparr>"

definition ENOTCONN :: int where
  "ENOTCONN = 107"

section \<open>Buffer\<close>

record Buffer =
  ev_buf :: evbuffer

definition Buffer_default :: Buffer where
  "Buffer_default = \<lparr>ev_buf = evbuffer_new\<rparr>"

definition Buffer_size :: "Buffer \<Rightarrow> nat" where
  "Buffer_size b = evbuffer_get_length (ev_buf b)"

definition Buffer_drain :: "nat \<Rightarrow> Buffer \<Rightarrow> Buffer" where
  "Buffer_drain n_bytes b = b\<lparr>ev_buf := evbuffer_drain (ev_buf b) n_bytes\<rparr>"

definition Buffer_clear :: "Buffer \<Rightarrow> Buffer" where
  "Buffer_clear b = Buffer_drain (Buffer_size b) b"

definition Buffer_pullup :: "Buffer \<Rightarrow> (byte list \<times> nat) \<times> Buffer" where
  "Buffer_pullup b =
     (let (p, buf') = evbuffer_pullup (ev_buf b);
          b' = b\<lparr>ev_buf := buf'\<rparr>
      in ((p, Buffer_size b'), b'))"

definition Buffer_data :: "Buffer \<Rightarrow> byte list \<times> Buffer" where
  "Buffer_data b =
     (let (p, buf') = evbuffer_pullup (ev_buf b)
      in (p, b\<lparr>ev_buf := buf'\<rparr>))"

text \<open>
  The implicit conversion of \<open>size_t n_bytes\<close> to the \<open>ev_ssize_t\<close> parameter of
  \<open>evbuffer_write_atmost\<close> (64 bits), and \<open>static_cast<int>(n_bytes)\<close> (32 bits).
\<close>

definition to_ssize :: "nat \<Rightarrow> int" where
  "to_ssize n = sint (word_of_nat n :: 64 word)"

definition to_int :: "nat \<Rightarrow> int" where
  "to_int n = sint (word_of_nat n :: 32 word)"

definition to_socket ::
    "Buffer \<Rightarrow> write_endpoint \<Rightarrow> nat \<Rightarrow> (nat \<times> tr_error option) \<times> Buffer" where
  "to_socket b sockfd n_bytes =
     (let ((res, err), buf') = evbuffer_write_atmost (ev_buf b) sockfd (to_ssize n_bytes);
          b' = b\<lparr>ev_buf := buf'\<rparr>
      in if res \<ge> 0 then ((nat res, None), b')
         else ((0, Some (tr_error_set err)), b'))"

definition add_socket ::
    "Buffer \<Rightarrow> read_endpoint \<Rightarrow> nat \<Rightarrow> (nat \<times> tr_error option) \<times> Buffer" where
  "add_socket b sockfd n_bytes =
     (let ((res, err), buf') = evbuffer_read (ev_buf b) sockfd (to_int n_bytes);
          b' = b\<lparr>ev_buf := buf'\<rparr>
      in if res > 0 then ((nat res, None), b')
         else if res = 0 then ((0, Some (tr_error_set_from_errno ENOTCONN)), b')
         else ((0, Some (tr_error_set err)), b'))"

definition Buffer_reserve_space :: "nat \<Rightarrow> Buffer \<Rightarrow> (nat \<times> nat) \<times> Buffer" where
  "Buffer_reserve_space n_bytes b =
     (let (iov, buf') = evbuffer_reserve_space (ev_buf b) n_bytes
      in (iov, b\<lparr>ev_buf := buf'\<rparr>))"

definition Buffer_commit_space :: "nat \<Rightarrow> Buffer \<Rightarrow> Buffer" where
  "Buffer_commit_space n_bytes b =
     (let ((iov_base, iov_len), buf') = evbuffer_reserve_space (ev_buf b) n_bytes;
          iov = (iov_base, n_bytes)
      in b\<lparr>ev_buf := evbuffer_commit_space buf' iov\<rparr>)"

text \<open>
  A write through the pointer \<open>iov_base\<close>, into the free region of the store that it
  designates.
\<close>

definition Buffer_copy_n :: "nat \<Rightarrow> byte list \<Rightarrow> Buffer \<Rightarrow> Buffer" where
  "Buffer_copy_n p src b =
     (if p = 0
      then b\<lparr>ev_buf := (ev_buf b)\<lparr>ev_space := overwrite 0 src (ev_space (ev_buf b))\<rparr>\<rparr>
      else b\<lparr>ev_buf := (ev_buf b)\<lparr>ev_next := overwrite 0 src (ev_next (ev_buf b))\<rparr>\<rparr>)"

definition Buffer_reader :: "Buffer BufferReader" where
  "Buffer_reader = \<lparr>rd_drain = Buffer_drain, rd_size = Buffer_size, rd_data = Buffer_data\<rparr>"

definition Buffer_writer :: "Buffer BufferWriter" where
  "Buffer_writer = \<lparr>wr_commit_space = Buffer_commit_space,
                    wr_reserve_space = Buffer_reserve_space,
                    wr_copy_n = Buffer_copy_n\<rparr>"

text \<open>\<open>explicit Buffer(T const& data)\<close>: the members are default-initialised, then the body runs.\<close>

definition Buffer_from :: "byte list \<Rightarrow> Buffer" where
  "Buffer_from d = add Buffer_writer d Buffer_default"

section \<open>SmallBuffer\<close>

text \<open>
  \<open>sfl::small_vector<value_type, N>\<close> is an external container: a vector whose first
  \<open>N\<close> elements of capacity are inline. It is modelled by its elements and its
  capacity. \<open>resize\<close> truncates or appends value-initialised elements and, when the
  capacity does not suffice, moves the elements to heap storage of a capacity that the
  container chooses: \<open>grow\<close> stands for that choice, any function of the old capacity
  and the required size, and the capacity is never below the size. Allocation is taken
  to succeed. \<open>erase\<close> of a prefix shifts the rest to the front.
\<close>

record small_vector =
  sv_elems :: "byte list"
  sv_cap :: nat

definition sv_new :: "nat \<Rightarrow> small_vector" where
  "sv_new N = \<lparr>sv_elems = [], sv_cap = N\<rparr>"

definition sv_resize :: "(nat \<Rightarrow> nat \<Rightarrow> nat) \<Rightarrow> nat \<Rightarrow> small_vector \<Rightarrow> small_vector" where
  "sv_resize grow n v =
     \<lparr>sv_elems = take n (sv_elems v) @ replicate (n - length (sv_elems v)) 0,
      sv_cap = (if n \<le> sv_cap v then sv_cap v else max n (grow (sv_cap v) n))\<rparr>"

definition sv_erase_front :: "nat \<Rightarrow> small_vector \<Rightarrow> small_vector" where
  "sv_erase_front n v = v\<lparr>sv_elems := drop n (sv_elems v)\<rparr>"

record SmallBuffer =
  sb_buf :: small_vector
  committed_size :: nat

definition SmallBuffer_default :: "nat \<Rightarrow> SmallBuffer" where
  "SmallBuffer_default N = \<lparr>sb_buf = sv_new N, committed_size = 0\<rparr>"

definition SmallBuffer_size :: "SmallBuffer \<Rightarrow> nat" where
  "SmallBuffer_size b = committed_size b"

definition SmallBuffer_data :: "SmallBuffer \<Rightarrow> byte list \<times> SmallBuffer" where
  "SmallBuffer_data b = (sv_elems (sb_buf b), b)"

definition SmallBuffer_drain :: "nat \<Rightarrow> SmallBuffer \<Rightarrow> SmallBuffer" where
  "SmallBuffer_drain n_bytes b =
     (let n = min n_bytes (SmallBuffer_size b)
      in \<lparr>sb_buf = sv_erase_front n (sb_buf b), committed_size = committed_size b - n\<rparr>)"

definition SmallBuffer_reserve_space ::
    "(nat \<Rightarrow> nat \<Rightarrow> nat) \<Rightarrow> nat \<Rightarrow> SmallBuffer \<Rightarrow> (nat \<times> nat) \<times> SmallBuffer" where
  "SmallBuffer_reserve_space grow n_bytes b =
     (let buf' = sv_resize grow (committed_size b + n_bytes) (sb_buf b)
      in ((committed_size b, sv_cap buf' - committed_size b), b\<lparr>sb_buf := buf'\<rparr>))"

definition SmallBuffer_commit_space :: "nat \<Rightarrow> SmallBuffer \<Rightarrow> SmallBuffer" where
  "SmallBuffer_commit_space n_bytes b = b\<lparr>committed_size := committed_size b + n_bytes\<rparr>"

text \<open>A write through the pointer \<open>data() + committed_size_\<close>, into the vector's elements.\<close>

definition SmallBuffer_copy_n :: "nat \<Rightarrow> byte list \<Rightarrow> SmallBuffer \<Rightarrow> SmallBuffer" where
  "SmallBuffer_copy_n p src b =
     b\<lparr>sb_buf := (sb_buf b)\<lparr>sv_elems := overwrite p src (sv_elems (sb_buf b))\<rparr>\<rparr>"

definition SmallBuffer_reader :: "SmallBuffer BufferReader" where
  "SmallBuffer_reader =
     \<lparr>rd_drain = SmallBuffer_drain, rd_size = SmallBuffer_size, rd_data = SmallBuffer_data\<rparr>"

definition SmallBuffer_writer :: "(nat \<Rightarrow> nat \<Rightarrow> nat) \<Rightarrow> SmallBuffer BufferWriter" where
  "SmallBuffer_writer grow =
     \<lparr>wr_commit_space = SmallBuffer_commit_space,
      wr_reserve_space = SmallBuffer_reserve_space grow,
      wr_copy_n = SmallBuffer_copy_n\<rparr>"






text \<open>
  The class keeps \<open>committed_size_\<close> within the vector's size; every state reached
  from the constructor through \<open>add\<close> and \<open>drain\<close> satisfies it.
\<close>

definition SmallBuffer_inv :: "SmallBuffer \<Rightarrow> bool" where
  "SmallBuffer_inv b =
     (committed_size b \<le> length (sv_elems (sb_buf b))
      \<and> length (sv_elems (sb_buf b)) \<le> sv_cap (sb_buf b))"


section \<open>Bytes of a word\<close>

lemma length_le_bytes [simp]: "length (le_bytes n w) = n"
  by (simp add: le_bytes_def)

lemma nth_le_bytes: "i < n \<Longrightarrow> le_bytes n w ! i = ucast (drop_bit (8 * i) w)"
  by (simp add: le_bytes_def)

lemma bit_word_of_le:
  "bit (word_of_le bs :: 'a::len word) k \<longleftrightarrow>
     k < LENGTH('a) \<and> k div 8 < length bs \<and> bit (bs ! (k div 8)) (k mod 8)"
proof (induction bs arbitrary: k)
  case Nil
  then show ?case by simp
next
  case (Cons b bs)
  show ?case
  proof (cases "k < 8")
    case True
    then show ?thesis
      by (auto simp: bit_simps Cons dest: bit_imp_le_length)
  next
    case False
    then have k: "k div 8 = Suc ((k - 8) div 8)" "k mod 8 = (k - 8) mod 8"
      by (simp_all add: le_div_geq le_mod_geq)
    have nb: "\<not> bit b k" using False
      by (auto dest: bit_imp_le_length)
    from False nb show ?thesis
      by (auto simp: bit_simps Cons k)
  qed
qed

lemma word_of_le_le_bytes:
  "LENGTH('a::len) \<le> 8 * n \<Longrightarrow> word_of_le (le_bytes n (w :: 'a word)) = w"
  apply (rule bit_eqI)
  apply (auto simp: bit_word_of_le nth_le_bytes bit_simps dest: bit_imp_le_length)
  done

lemma le_bytes_word_of_le:
  "length bs = n \<Longrightarrow> 8 * n \<le> LENGTH('a::len) \<Longrightarrow> le_bytes n (word_of_le bs :: 'a word) = bs"
  apply (rule nth_equalityI)
   apply simp
  apply (rule bit_eqI)
  apply (auto simp: bit_word_of_le nth_le_bytes bit_simps dest: bit_imp_le_length)
  done

lemma object_bytes_hton:
  "8 * n = LENGTH('a::len) \<Longrightarrow>
   object_bytes e n (case e of LittleEndian \<Rightarrow> byte_swap n w | BigEndian \<Rightarrow> (w :: 'a word))
     = rev (le_bytes n w)"
  by (cases e) (simp_all add: object_bytes_def byte_swap_def le_bytes_word_of_le)

lemma ntoh_object_value:
  "length bs = n \<Longrightarrow> 8 * n = LENGTH('a::len) \<Longrightarrow>
   (case e of LittleEndian \<Rightarrow> byte_swap n (object_value e bs :: 'a word)
            | BigEndian \<Rightarrow> object_value e bs) = word_of_le (rev bs)"
  by (cases e) (simp_all add: object_value_def byte_swap_def le_bytes_word_of_le)

lemma le_bytes_zero: "le_bytes n (0 :: 'a::len word) = replicate n 0"
  by (simp add: le_bytes_def map_replicate_const)

lemma object_bytes_zero: "object_bytes e n (0 :: 'a::len word) = replicate n 0"
  by (cases e) (simp_all add: object_bytes_def le_bytes_zero)

section \<open>The logical content of the two buffers\<close>

text \<open>
  The logical content of a buffer is what \<open>to_string\<close> copies: the first
  \<open>size()\<close> bytes at \<open>data()\<close>.
\<close>

lemma overwrite_fits:
  "p + length src \<le> length mem \<Longrightarrow>
   overwrite p src mem = take p mem @ src @ drop (p + length src) mem"
  by (simp add: overwrite_def)

lemma ev_data_simps [simp]:
  "ev_data \<lparr>ev_chain = cs, ev_space = sp, ev_next = nx\<rparr> = concat cs"
  by (simp add: ev_data_def)

lemma evbuffer_pullup_value: "fst (evbuffer_pullup buf) = ev_data buf"
  by (simp add: evbuffer_pullup_def ev_data_def split: list.splits)

lemma evbuffer_pullup_data: "ev_data (snd (evbuffer_pullup buf)) = ev_data buf"
  by (simp add: evbuffer_pullup_def ev_data_def split: list.splits)

lemma concat_drain_chain: "concat (drain_chain n cs) = drop n (concat cs)"
  by (induction cs arbitrary: n) simp_all

lemma concat_butlast_last: "cs \<noteq> [] \<Longrightarrow> concat (butlast cs) @ last cs = concat cs"
  by (induction cs) auto

lemma concat_chain_append: "concat (chain_append cs bs) = concat cs @ bs"
  by (simp add: chain_append_def concat_butlast_last)

lemma evbuffer_drain_data: "ev_data (evbuffer_drain buf n) = drop n (ev_data buf)"
  by (simp add: evbuffer_drain_def ev_data_def concat_drain_chain)

lemma Buffer_data_value: "fst (Buffer_data b) = ev_data (ev_buf b)"
  using evbuffer_pullup_value [of "ev_buf b"]
  by (simp add: Buffer_data_def case_prod_beta)

lemma Buffer_data_after: "ev_data (ev_buf (snd (Buffer_data b))) = ev_data (ev_buf b)"
  using evbuffer_pullup_data [of "ev_buf b"]
  by (simp add: Buffer_data_def case_prod_beta)

lemma Buffer_size_content: "Buffer_size b = length (ev_data (ev_buf b))"
  by (simp add: Buffer_size_def evbuffer_get_length_def)

lemma Buffer_data_size: "Buffer_size (snd (Buffer_data b)) = Buffer_size b"
  by (simp add: Buffer_size_content Buffer_data_after)

lemma Buffer_drain_after_data:
  "Buffer_size b \<le> n \<Longrightarrow> Buffer_drain n (snd (Buffer_data b)) = Buffer_drain n b"
  using evbuffer_pullup_data [of "ev_buf b"]
  by (simp add: Buffer_drain_def Buffer_data_def evbuffer_drain_def Buffer_size_content
      case_prod_beta)

lemma Buffer_content: "to_string Buffer_reader b = ev_data (ev_buf b)"
  by (simp add: to_string_def Buffer_reader_def Buffer_size_content Buffer_data_value)

lemma Buffer_add_data: "ev_data (ev_buf (add Buffer_writer xs b)) = ev_data (ev_buf b) @ xs"
  by (simp add: add_def Buffer_writer_def Buffer_reserve_space_def Buffer_copy_n_def
      Buffer_commit_space_def evbuffer_reserve_space_def evbuffer_commit_space_def
      overwrite_def Let_def ev_data_def concat_chain_append)

lemma Buffer_drain_data:
  "ev_data (ev_buf (Buffer_drain n b)) = drop n (ev_data (ev_buf b))"
  by (simp add: Buffer_drain_def evbuffer_drain_data)

lemma SmallBuffer_data_simps [simp]:
  "fst (SmallBuffer_data s) = sv_elems (sb_buf s)"
  "snd (SmallBuffer_data s) = s"
  by (simp_all add: SmallBuffer_data_def)

lemma SmallBuffer_content:
  "to_string SmallBuffer_reader b = take (committed_size b) (sv_elems (sb_buf b))"
  by (simp add: to_string_def SmallBuffer_reader_def SmallBuffer_size_def SmallBuffer_data_def)

lemma SmallBuffer_add_content:
  "SmallBuffer_inv b \<Longrightarrow>
   to_string SmallBuffer_reader (add (SmallBuffer_writer g) xs b)
     = to_string SmallBuffer_reader b @ xs"
  by (simp add: SmallBuffer_content add_def SmallBuffer_writer_def SmallBuffer_reserve_space_def
      SmallBuffer_copy_n_def SmallBuffer_commit_space_def sv_resize_def overwrite_def
      SmallBuffer_inv_def Let_def)

lemma SmallBuffer_add_size:
  "SmallBuffer_size (add (SmallBuffer_writer g) xs b) = SmallBuffer_size b + length xs"
  by (simp add: add_def SmallBuffer_writer_def SmallBuffer_reserve_space_def
      SmallBuffer_copy_n_def SmallBuffer_commit_space_def SmallBuffer_size_def Let_def)

lemma SmallBuffer_add_inv:
  "SmallBuffer_inv b \<Longrightarrow> SmallBuffer_inv (add (SmallBuffer_writer g) xs b)"
  by (simp add: add_def SmallBuffer_writer_def SmallBuffer_reserve_space_def
      SmallBuffer_copy_n_def SmallBuffer_commit_space_def sv_resize_def overwrite_def
      SmallBuffer_inv_def Let_def)

lemma SmallBuffer_drain_content:
  "to_string SmallBuffer_reader (SmallBuffer_drain n b)
     = drop (min n (SmallBuffer_size b)) (to_string SmallBuffer_reader b)"
  by (simp add: SmallBuffer_content SmallBuffer_drain_def SmallBuffer_size_def sv_erase_front_def
      Let_def take_drop min_def)

lemma SmallBuffer_drain_inv:
  "SmallBuffer_inv b \<Longrightarrow> SmallBuffer_inv (SmallBuffer_drain n b)"
  by (auto simp add: SmallBuffer_drain_def SmallBuffer_size_def sv_erase_front_def
      SmallBuffer_inv_def Let_def min_def)

lemma SmallBuffer_default_inv: "SmallBuffer_inv (SmallBuffer_default N)"
  by (simp add: SmallBuffer_inv_def SmallBuffer_default_def sv_new_def)

lemma evbuffer_write_atmost_result:
  assumes "evbuffer_write_atmost buf fd h = ((res, e), buf')"
  shows "res \<le> int (length (ev_data buf))"
    and "ev_data buf' = drop (nat res) (ev_data buf)"
    and "res < 0 \<Longrightarrow> buf' = buf"
  using assms
  by (auto simp: evbuffer_write_atmost_def Let_def evbuffer_drain_data
      split: if_splits write_endpoint.splits)

lemma std_equal_take: "std_equal xs ys \<longleftrightarrow> take (length xs) ys = xs"
  by (induction xs ys rule: std_equal.induct) auto

lemma to_ssize_small: "n < 2 ^ 63 \<Longrightarrow> to_ssize n = int n"
  unfolding to_ssize_def
  by (simp add: signed_of_nat signed_take_bit_int_eq_self)

lemma to_int_small: "n < 2 ^ 31 \<Longrightarrow> to_int n = int n"
  unfolding to_int_def
  by (simp add: signed_of_nat signed_take_bit_int_eq_self)

lemma Buffer_reader_simps:
  "rd_size Buffer_reader = Buffer_size"
  "rd_data Buffer_reader = Buffer_data"
  "rd_drain Buffer_reader = Buffer_drain"
  by (simp_all add: Buffer_reader_def)

lemma SmallBuffer_reader_simps:
  "rd_size SmallBuffer_reader = SmallBuffer_size"
  "rd_data SmallBuffer_reader = SmallBuffer_data"
  "rd_drain SmallBuffer_reader = SmallBuffer_drain"
  by (simp_all add: SmallBuffer_reader_def)

lemma to_buf_all: "fst (fst (to_buf R (rd_size R x) x)) = to_string R x"
  by (simp add: to_buf_def to_string_def Let_def case_prod_beta)

section \<open>The scalar codec\<close>

text \<open>
  On either host the encoders append the big-endian bytes of the value, and a decoder
  returns the big-endian value of the bytes it found, shifted left by one byte for every
  byte that was missing.
\<close>

lemma word_of_le_zeros: "word_of_le (replicate m 0 @ xs) = push_bit (8 * m) (word_of_le xs :: 'a::len word)"
  by (induction m) (simp_all add: push_bit_push_bit ac_simps)

lemma object_value_single:
  "length bs = 1 \<Longrightarrow> (object_value e bs :: 'a::len word) = word_of_le (rev bs)"
  by (cases bs; cases e) (simp_all add: object_value_def)

lemma to_buf_eq:
  "to_buf R n b =
     ((take (min n (rd_size R b)) (fst (rd_data R b)), min n (rd_size R b)),
      rd_drain R (min n (rd_size R b)) (snd (rd_data R b)))"
  by (simp add: to_buf_def Let_def case_prod_beta)

lemma scalar_tmp:
  fixes R :: "'s BufferReader" and n :: nat and e :: endian
  assumes "rd_size R b \<le> length (fst (rd_data R b))"
  defines "bs \<equiv> take (min n (rd_size R b)) (fst (rd_data R b))
                  @ drop (min n (rd_size R b)) (object_bytes e n (0 :: 'a::len word))"
  shows "length bs = n"
    and "word_of_le (rev bs) =
      (push_bit (8 * (n - rd_size R b)) (word_of_le (rev (take n (to_string R b)))) :: 'b::len word)"
proof -
  define k where "k = min n (rd_size R b)"
  have bs: "bs = take k (fst (rd_data R b)) @ replicate (n - k) 0"
    by (simp add: bs_def object_bytes_zero k_def)
  show "length bs = n"
    using assms(1) by (simp add: bs k_def min_def)
  have "take n (to_string R b) = take k (fst (rd_data R b))"
    by (simp add: to_string_def k_def take_take)
  moreover have "n - k = n - rd_size R b"
    by (simp add: k_def min_def)
  ultimately show "word_of_le (rev bs) =
      (push_bit (8 * (n - rd_size R b)) (word_of_le (rev (take n (to_string R b)))) :: 'b word)"
    by (simp add: bs word_of_le_zeros)
qed

lemma to_uint8_value:
  assumes "rd_size R b \<le> length (fst (rd_data R b))"
  shows "to_uint8 e R b =
     (push_bit (8 * (1 - rd_size R b)) (word_of_le (rev (take 1 (to_string R b)))),
      rd_drain R (min 1 (rd_size R b)) (snd (rd_data R b)))"
proof -
  define bs where "bs = take (min 1 (rd_size R b)) (fst (rd_data R b))
      @ drop (min 1 (rd_size R b)) (object_bytes e 1 (0 :: 8 word))"
  have len: "length bs = 1"
    unfolding bs_def using assms by (rule scalar_tmp(1))
  have val: "(word_of_le (rev bs) :: 8 word)
      = push_bit (8 * (1 - rd_size R b)) (word_of_le (rev (take 1 (to_string R b))))"
    unfolding bs_def using assms by (rule scalar_tmp(2))
  have "(object_value e bs :: 8 word) = word_of_le (rev bs)"
    by (rule object_value_single [OF len])
  then show ?thesis
    unfolding to_uint8_def to_buf_eq Let_def prod.case bs_def [symmetric]
    by (simp only: val)
qed

lemma to_uint16_value:
  assumes "rd_size R b \<le> length (fst (rd_data R b))"
  shows "to_uint16 e R b =
     (push_bit (8 * (2 - rd_size R b)) (word_of_le (rev (take 2 (to_string R b)))),
      rd_drain R (min 2 (rd_size R b)) (snd (rd_data R b)))"
proof -
  define bs where "bs = take (min 2 (rd_size R b)) (fst (rd_data R b))
      @ drop (min 2 (rd_size R b)) (object_bytes e 2 (0 :: 16 word))"
  have len: "length bs = 2"
    unfolding bs_def using assms by (rule scalar_tmp(1))
  have val: "(word_of_le (rev bs) :: 16 word)
      = push_bit (8 * (2 - rd_size R b)) (word_of_le (rev (take 2 (to_string R b))))"
    unfolding bs_def using assms by (rule scalar_tmp(2))
  have "ntohs e (object_value e bs) = word_of_le (rev bs)"
    unfolding ntohs_def by (rule ntoh_object_value [OF len]) simp
  then show ?thesis
    by (simp add: to_uint16_def to_buf_eq Let_def bs_def [symmetric] val)
qed

lemma to_uint32_value:
  assumes "rd_size R b \<le> length (fst (rd_data R b))"
  shows "to_uint32 e R b =
     (push_bit (8 * (4 - rd_size R b)) (word_of_le (rev (take 4 (to_string R b)))),
      rd_drain R (min 4 (rd_size R b)) (snd (rd_data R b)))"
proof -
  define bs where "bs = take (min 4 (rd_size R b)) (fst (rd_data R b))
      @ drop (min 4 (rd_size R b)) (object_bytes e 4 (0 :: 32 word))"
  have len: "length bs = 4"
    unfolding bs_def using assms by (rule scalar_tmp(1))
  have val: "(word_of_le (rev bs) :: 32 word)
      = push_bit (8 * (4 - rd_size R b)) (word_of_le (rev (take 4 (to_string R b))))"
    unfolding bs_def using assms by (rule scalar_tmp(2))
  have "ntohl e (object_value e bs) = word_of_le (rev bs)"
    unfolding ntohl_def by (rule ntoh_object_value [OF len]) simp
  then show ?thesis
    by (simp add: to_uint32_def to_buf_eq Let_def bs_def [symmetric] val)
qed

lemma to_uint64_value:
  assumes "rd_size R b \<le> length (fst (rd_data R b))"
  shows "to_uint64 e R b =
     (push_bit (8 * (8 - rd_size R b)) (word_of_le (rev (take 8 (to_string R b)))),
      rd_drain R (min 8 (rd_size R b)) (snd (rd_data R b)))"
proof -
  define bs where "bs = take (min 8 (rd_size R b)) (fst (rd_data R b))
      @ drop (min 8 (rd_size R b)) (object_bytes e 8 (0 :: 64 word))"
  have len: "length bs = 8"
    unfolding bs_def using assms by (rule scalar_tmp(1))
  have val: "(word_of_le (rev bs) :: 64 word)
      = push_bit (8 * (8 - rd_size R b)) (word_of_le (rev (take 8 (to_string R b))))"
    unfolding bs_def using assms by (rule scalar_tmp(2))
  have "tr_ntohll e (object_value e bs) = word_of_le (rev bs)"
    unfolding tr_ntohll_def by (rule ntoh_object_value [OF len]) simp
  then show ?thesis
    by (simp add: to_uint64_def to_buf_eq Let_def bs_def [symmetric] val)
qed

lemma add_uint8_bytes: "add_uint8 W x b = add W (rev (le_bytes 1 x)) b"
  by (simp add: add_uint8_def le_bytes_def)

lemma add_uint16_bytes: "add_uint16 e W x b = add W (rev (le_bytes 2 x)) b"
  using object_bytes_hton [of 2 e x] by (simp add: add_uint16_def htons_def)

lemma add_uint32_bytes: "add_uint32 e W x b = add W (rev (le_bytes 4 x)) b"
  using object_bytes_hton [of 4 e x] by (simp add: add_uint32_def htonl_def)

lemma add_uint64_bytes: "add_uint64 e W x b = add W (rev (le_bytes 8 x)) b"
  using object_bytes_hton [of 8 e x] by (simp add: add_uint64_def tr_htonll_def)

lemma be_bytes_explicit:
  "rev (le_bytes 1 (a :: 8 word)) = [a]"
  "le_bytes (Suc 0) (a :: 8 word) = [a]"
  "rev (le_bytes 2 (s :: 16 word)) = [ucast (drop_bit 8 s), ucast s]"
  "rev (le_bytes 4 (l :: 32 word)) =
     [ucast (drop_bit 24 l), ucast (drop_bit 16 l), ucast (drop_bit 8 l), ucast l]"
  "rev (le_bytes 8 (q :: 64 word)) =
     [ucast (drop_bit 56 q), ucast (drop_bit 48 q), ucast (drop_bit 40 q), ucast (drop_bit 32 q),
      ucast (drop_bit 24 q), ucast (drop_bit 16 q), ucast (drop_bit 8 q), ucast q]"
  by (simp_all add: le_bytes_def upt_rec [of _ "numeral n" for n] upt_rec [of _ 1])

lemma roundtrip8:
  assumes "to_string R b = rev (le_bytes 1 (x :: 8 word))" and "rd_size R b = 1"
    and "rd_size R b \<le> length (fst (rd_data R b))"
  shows "to_uint8 e R b = (x, rd_drain R 1 (snd (rd_data R b)))"
  using to_uint8_value [OF assms(3), of e] assms(1,2)
  by (simp add: word_of_le_le_bytes)

lemma roundtrip16:
  assumes "to_string R b = rev (le_bytes 2 (x :: 16 word))" and "rd_size R b = 2"
    and "rd_size R b \<le> length (fst (rd_data R b))"
  shows "to_uint16 e R b = (x, rd_drain R 2 (snd (rd_data R b)))"
  using to_uint16_value [OF assms(3), of e] assms(1,2)
  by (simp add: word_of_le_le_bytes)

lemma roundtrip32:
  assumes "to_string R b = rev (le_bytes 4 (x :: 32 word))" and "rd_size R b = 4"
    and "rd_size R b \<le> length (fst (rd_data R b))"
  shows "to_uint32 e R b = (x, rd_drain R 4 (snd (rd_data R b)))"
  using to_uint32_value [OF assms(3), of e] assms(1,2)
  by (simp add: word_of_le_le_bytes)

lemma roundtrip64:
  assumes "to_string R b = rev (le_bytes 8 (x :: 64 word))" and "rd_size R b = 8"
    and "rd_size R b \<le> length (fst (rd_data R b))"
  shows "to_uint64 e R b = (x, rd_drain R 8 (snd (rd_data R b)))"
  using to_uint64_value [OF assms(3), of e] assms(1,2)
  by (simp add: word_of_le_le_bytes)

lemma Buffer_data_length: "rd_size Buffer_reader b \<le> length (fst (rd_data Buffer_reader b))"
  by (simp add: Buffer_reader_simps Buffer_size_content Buffer_data_value)

lemma SmallBuffer_data_length:
  "SmallBuffer_inv s \<Longrightarrow> rd_size SmallBuffer_reader s \<le> length (fst (rd_data SmallBuffer_reader s))"
  by (simp add: SmallBuffer_reader_simps SmallBuffer_size_def SmallBuffer_data_def SmallBuffer_inv_def)

lemma Buffer_add_content:
  "to_string Buffer_reader (add Buffer_writer xs b) = to_string Buffer_reader b @ xs"
  by (simp add: Buffer_content Buffer_add_data)

lemma Buffer_add_size: "Buffer_size (add Buffer_writer xs b) = Buffer_size b + length xs"
  by (simp add: Buffer_size_content Buffer_add_data)

lemma Buffer_empty_content: "Buffer_size b = 0 \<Longrightarrow> to_string Buffer_reader b = []"
  by (simp add: Buffer_size_content Buffer_content)

lemma SmallBuffer_empty_content: "SmallBuffer_size s = 0 \<Longrightarrow> to_string SmallBuffer_reader s = []"
  by (simp add: SmallBuffer_size_def SmallBuffer_content)

lemma Buffer_drain_all: "Buffer_size b \<le> n \<Longrightarrow> Buffer_size (Buffer_drain n b) = 0"
  by (simp add: Buffer_size_content Buffer_drain_data)

lemma Buffer_drain_all_after_data:
  "Buffer_size b \<le> n \<Longrightarrow> Buffer_size (Buffer_drain n (snd (Buffer_data b))) = 0"
  by (simp add: Buffer_drain_after_data Buffer_drain_all)

lemma SmallBuffer_drain_all: "SmallBuffer_size s \<le> n \<Longrightarrow> SmallBuffer_size (SmallBuffer_drain n s) = 0"
  by (simp add: SmallBuffer_size_def SmallBuffer_drain_def Let_def)

lemma Buffer_roundtrip8:
  assumes "Buffer_size b = 0"
  shows "to_uint8 e Buffer_reader (add_uint8 Buffer_writer x b)
      = (x, Buffer_drain 1 (snd (Buffer_data (add_uint8 Buffer_writer x b))))"
  using roundtrip8 [of Buffer_reader "add_uint8 Buffer_writer x b" x e]
    Buffer_data_length [of "add_uint8 Buffer_writer x b"] assms
  by (simp add: add_uint8_bytes Buffer_add_content Buffer_add_size Buffer_empty_content
      Buffer_reader_simps)

lemma SmallBuffer_roundtrip8:
  assumes "SmallBuffer_size s = 0" and "SmallBuffer_inv s"
  shows "to_uint8 e SmallBuffer_reader (add_uint8 (SmallBuffer_writer g) x s)
      = (x, SmallBuffer_drain 1 (add_uint8 (SmallBuffer_writer g) x s))"
  using roundtrip8 [of SmallBuffer_reader "add_uint8 (SmallBuffer_writer g) x s" x e]
    SmallBuffer_data_length [of "add_uint8 (SmallBuffer_writer g) x s"] assms
  by (simp add: add_uint8_bytes SmallBuffer_add_content SmallBuffer_add_size
      SmallBuffer_add_inv SmallBuffer_empty_content SmallBuffer_reader_simps)

lemma Buffer_roundtrip16:
  assumes "Buffer_size b = 0"
  shows "to_uint16 e Buffer_reader (add_uint16 e Buffer_writer x b)
      = (x, Buffer_drain 2 (snd (Buffer_data (add_uint16 e Buffer_writer x b))))"
  using roundtrip16 [of Buffer_reader "add_uint16 e Buffer_writer x b" x e]
    Buffer_data_length [of "add_uint16 e Buffer_writer x b"] assms
  by (simp add: add_uint16_bytes Buffer_add_content Buffer_add_size Buffer_empty_content
      Buffer_reader_simps)

lemma SmallBuffer_roundtrip16:
  assumes "SmallBuffer_size s = 0" and "SmallBuffer_inv s"
  shows "to_uint16 e SmallBuffer_reader (add_uint16 e (SmallBuffer_writer g) x s)
      = (x, SmallBuffer_drain 2 (add_uint16 e (SmallBuffer_writer g) x s))"
  using roundtrip16 [of SmallBuffer_reader "add_uint16 e (SmallBuffer_writer g) x s" x e]
    SmallBuffer_data_length [of "add_uint16 e (SmallBuffer_writer g) x s"] assms
  by (simp add: add_uint16_bytes SmallBuffer_add_content SmallBuffer_add_size
      SmallBuffer_add_inv SmallBuffer_empty_content SmallBuffer_reader_simps)

lemma Buffer_roundtrip32:
  assumes "Buffer_size b = 0"
  shows "to_uint32 e Buffer_reader (add_uint32 e Buffer_writer x b)
      = (x, Buffer_drain 4 (snd (Buffer_data (add_uint32 e Buffer_writer x b))))"
  using roundtrip32 [of Buffer_reader "add_uint32 e Buffer_writer x b" x e]
    Buffer_data_length [of "add_uint32 e Buffer_writer x b"] assms
  by (simp add: add_uint32_bytes Buffer_add_content Buffer_add_size Buffer_empty_content
      Buffer_reader_simps)

lemma SmallBuffer_roundtrip32:
  assumes "SmallBuffer_size s = 0" and "SmallBuffer_inv s"
  shows "to_uint32 e SmallBuffer_reader (add_uint32 e (SmallBuffer_writer g) x s)
      = (x, SmallBuffer_drain 4 (add_uint32 e (SmallBuffer_writer g) x s))"
  using roundtrip32 [of SmallBuffer_reader "add_uint32 e (SmallBuffer_writer g) x s" x e]
    SmallBuffer_data_length [of "add_uint32 e (SmallBuffer_writer g) x s"] assms
  by (simp add: add_uint32_bytes SmallBuffer_add_content SmallBuffer_add_size
      SmallBuffer_add_inv SmallBuffer_empty_content SmallBuffer_reader_simps)

lemma Buffer_roundtrip64:
  assumes "Buffer_size b = 0"
  shows "to_uint64 e Buffer_reader (add_uint64 e Buffer_writer x b)
      = (x, Buffer_drain 8 (snd (Buffer_data (add_uint64 e Buffer_writer x b))))"
  using roundtrip64 [of Buffer_reader "add_uint64 e Buffer_writer x b" x e]
    Buffer_data_length [of "add_uint64 e Buffer_writer x b"] assms
  by (simp add: add_uint64_bytes Buffer_add_content Buffer_add_size Buffer_empty_content
      Buffer_reader_simps)

lemma SmallBuffer_roundtrip64:
  assumes "SmallBuffer_size s = 0" and "SmallBuffer_inv s"
  shows "to_uint64 e SmallBuffer_reader (add_uint64 e (SmallBuffer_writer g) x s)
      = (x, SmallBuffer_drain 8 (add_uint64 e (SmallBuffer_writer g) x s))"
  using roundtrip64 [of SmallBuffer_reader "add_uint64 e (SmallBuffer_writer g) x s" x e]
    SmallBuffer_data_length [of "add_uint64 e (SmallBuffer_writer g) x s"] assms
  by (simp add: add_uint64_bytes SmallBuffer_add_content SmallBuffer_add_size
      SmallBuffer_add_inv SmallBuffer_empty_content SmallBuffer_reader_simps)

section \<open>Sequences of appends to a SmallBuffer\<close>

lemma SmallBuffer_fold_add:
  "SmallBuffer_inv s \<Longrightarrow>
   SmallBuffer_inv (fold (add (SmallBuffer_writer g)) chunks s)
   \<and> to_string SmallBuffer_reader (fold (add (SmallBuffer_writer g)) chunks s)
       = to_string SmallBuffer_reader s @ concat chunks
   \<and> SmallBuffer_size (fold (add (SmallBuffer_writer g)) chunks s)
       = SmallBuffer_size s + length (concat chunks)"
proof (induction chunks arbitrary: s)
  case Nil
  then show ?case by simp
next
  case (Cons c chunks)
  from Cons.IH [OF SmallBuffer_add_inv [OF Cons.prems, of g c]] show ?case
    by (simp add: SmallBuffer_add_content [OF Cons.prems] SmallBuffer_add_size)
qed

lemma SmallBuffer_size_le_cap: "SmallBuffer_inv s \<Longrightarrow> SmallBuffer_size s \<le> sv_cap (sb_buf s)"
  by (simp add: SmallBuffer_inv_def SmallBuffer_size_def)

lemma SmallBuffer_default_empty:
  "to_string SmallBuffer_reader (SmallBuffer_default N) = []"
  "SmallBuffer_size (SmallBuffer_default N) = 0"
  "sv_cap (sb_buf (SmallBuffer_default N)) = N"
  by (simp_all add: SmallBuffer_content SmallBuffer_size_def SmallBuffer_default_def sv_new_def)

lemma to_buf_content:
  "fst (fst (to_buf R n b)) = take n (to_string R b)"
  by (simp add: to_buf_eq to_string_def take_take)


section \<open>Reading from a socket, the string of a buffer, reserving and committing\<close>

text \<open>
  \<open>static_cast<int>\<close> keeps the low 32 bits of the count and reads them as a signed
  number.
\<close>

lemma to_int_eq:
  "to_int n = (if n mod 2 ^ 32 < 2 ^ 31 then int (n mod 2 ^ 32) else int (n mod 2 ^ 32) - 2 ^ 32)"
proof -
  have "to_int n = take_bit 32 (int n + 2 ^ 31) - 2 ^ 31"
    by (simp add: to_int_def signed_of_nat signed_take_bit_eq_take_bit_shift)
  also have "\<dots> = (int n + 2 ^ 31) mod 2 ^ 32 - 2 ^ 31"
    by (simp add: take_bit_eq_mod)
  also have "\<dots> = (if n mod 2 ^ 32 < 2 ^ 31 then int (n mod 2 ^ 32) else int (n mod 2 ^ 32) - 2 ^ 32)"
  proof -
    define m where "m = int n mod 4294967296"
    have m: "0 \<le> m" "m < 4294967296" by (simp_all add: m_def)
    have e: "(int n + 2147483648) mod 4294967296 = (m + 2147483648) mod 4294967296"
      unfolding m_def by (simp add: mod_add_left_eq)
    have i: "int (n mod 4294967296) = m"
      by (simp add: m_def zmod_int)
    have l: "(n mod 4294967296 < 2147483648) = (m < 2147483648)"
      using i by linarith
    have lo: "(m + 2147483648) mod 4294967296 = m + 2147483648" if "m < 2147483648"
      using m that by (simp add: mod_pos_pos_trivial)
    have hi: "(m + 2147483648) mod 4294967296 = m - 2147483648" if "\<not> m < 2147483648"
    proof -
      have "m + 2147483648 = (m - 2147483648) + 4294967296"
        by simp
      then have "(m + 2147483648) mod 4294967296 = ((m - 2147483648) + 4294967296) mod 4294967296"
        by (simp only:)
      also have "\<dots> = (m - 2147483648) mod 4294967296"
        by (simp only: mod_add_self2)
      also have "\<dots> = m - 2147483648"
        using m that by (simp add: mod_pos_pos_trivial)
      finally show ?thesis .
    qed
    show ?thesis
      using lo hi by (simp add: e i l)
  qed
  finally show ?thesis .
qed

lemma evbuffer_read_result:
  "evbuffer_read buf (Delivers bs) h =
     (let got = (if h < 0 then bs else take (nat h) bs)
      in if got = [] then ((0, 0), buf)
         else ((int (length got), 0),
               \<lparr>ev_chain = ev_chain buf @ [got], ev_space = [], ev_next = []\<rparr>))"
  by (simp add: evbuffer_read_def)

lemma add_socket_delivers:
  fixes n :: nat and bs :: "byte list"
  defines "got \<equiv> (if n mod 2 ^ 32 < 2 ^ 31 then take (n mod 2 ^ 32) bs else bs)"
  shows "got \<noteq> [] \<Longrightarrow> fst (add_socket b (Delivers bs) n) = (length got, None)"
    and "got \<noteq> [] \<Longrightarrow>
      ev_data (ev_buf (snd (add_socket b (Delivers bs) n))) = ev_data (ev_buf b) @ got"
    and "got = [] \<Longrightarrow>
      add_socket b (Delivers bs) n = ((0, Some \<lparr>err_code = ENOTCONN\<rparr>), b)"
proof -
  have g: "(if to_int n < 0 then bs else take (nat (to_int n)) bs) = got"
    by (simp add: to_int_eq got_def)
  show "got \<noteq> [] \<Longrightarrow> fst (add_socket b (Delivers bs) n) = (length got, None)"
    by (simp add: add_socket_def evbuffer_read_result g Let_def)
  show "got \<noteq> [] \<Longrightarrow>
      ev_data (ev_buf (snd (add_socket b (Delivers bs) n))) = ev_data (ev_buf b) @ got"
    by (simp add: add_socket_def evbuffer_read_result g Let_def ev_data_def)
  show "got = [] \<Longrightarrow>
      add_socket b (Delivers bs) n = ((0, Some \<lparr>err_code = ENOTCONN\<rparr>), b)"
    by (simp add: add_socket_def evbuffer_read_result g Let_def tr_error_set_from_errno_def)
qed

lemma Buffer_to_string_call:
  "to_string_call Buffer_reader b = (ev_data (ev_buf b), snd (Buffer_data b))"
  by (simp add: to_string_call_def Buffer_reader_simps case_prod_beta Let_def
      Buffer_data_value Buffer_size_content Buffer_data_after)

lemma SmallBuffer_to_string_call:
  "to_string_call SmallBuffer_reader s = (take (committed_size s) (sv_elems (sb_buf s)), s)"
  by (simp add: to_string_call_def SmallBuffer_reader_simps case_prod_beta Let_def
      SmallBuffer_size_def)

lemma to_string_call_value:
  "rd_size R (snd (rd_data R b)) = rd_size R b \<Longrightarrow> fst (to_string_call R b) = to_string R b"
  by (simp add: to_string_call_def to_string_def case_prod_beta Let_def)












text \<open>
  \<open>Buffer::commit_space\<close> is not given the region that the caller reserved: it
  reserves \<open>n_bytes\<close> again and commits what that reservation returns. A smaller
  request can be served from free space that was too short for the caller's request.
  Here the last segment has one free byte, \<open>5\<close>, left, a reservation of two bytes
  is served from a new segment and filled with \<open>[1, 2]\<close>, and \<open>commit_space(1)\<close>
  commits the free byte of the last segment.
\<close>

lemma Buffer_commit_smaller_reservation:
  "Buffer_reserve_space 2 (Buffer_commit_space 1 (Buffer_copy_n 0 [9, 5]
        (snd (Buffer_reserve_space 2 Buffer_default))))
     = ((1, 2), \<lparr>ev_buf = \<lparr>ev_chain = [[9]], ev_space = [5], ev_next = [0, 0]\<rparr>\<rparr>)
   \<and> to_string Buffer_reader (Buffer_commit_space 1 (Buffer_copy_n 1 [1, 2]
        \<lparr>ev_buf = \<lparr>ev_chain = [[9]], ev_space = [5], ev_next = [0, 0]\<rparr>\<rparr>)) = [9, 5]
   \<and> fst (fst (Buffer_reserve_space 1 (Buffer_copy_n 1 [1, 2]
        \<lparr>ev_buf = \<lparr>ev_chain = [[9]], ev_space = [5], ev_next = [0, 0]\<rparr>\<rparr>))) = 0"
  by (simp add: Buffer_content Buffer_reserve_space_def Buffer_commit_space_def
      evbuffer_reserve_space_def evbuffer_commit_space_def Buffer_copy_n_def overwrite_def
      Buffer_default_def evbuffer_new_def chain_append_def Let_def numeral_2_eq_2)

section \<open>Claims\<close>

text \<open>
  C1, as the specification states it: a \<open>to_socket\<close> call that returns a count of
  bytes written leaves \<open>size()\<close> and the content as they were. It fails on the
  code: \<open>to_socket\<close> hands the store to \<open>evbuffer_write_atmost\<close>, which drains
  what it wrote. With the content \<open>[1, 2, 3]\<close> and an endpoint that takes two bytes,
  the call returns 2 with no error and leaves \<open>[3]\<close>, of size 1.
\<close>

theorem to_socket_keeps_buffer_counterexample:
  "fst (to_socket (Buffer_from [1, 2, 3]) (Accepts 2) 3) = (2, None)
   \<and> Buffer_size (Buffer_from [1, 2, 3]) = 3
   \<and> Buffer_size (snd (to_socket (Buffer_from [1, 2, 3]) (Accepts 2) 3)) = 1
   \<and> to_string Buffer_reader (Buffer_from [1, 2, 3]) = [1, 2, 3]
   \<and> to_string Buffer_reader (snd (to_socket (Buffer_from [1, 2, 3]) (Accepts 2) 3)) = [3]"
  by (simp add: to_socket_def evbuffer_write_atmost_def Let_def evbuffer_drain_def 
      Buffer_from_def add_def Buffer_writer_def Buffer_reserve_space_def Buffer_copy_n_def
      Buffer_commit_space_def evbuffer_reserve_space_def evbuffer_commit_space_def
      overwrite_def Buffer_default_def evbuffer_new_def to_ssize_def chain_append_def
      Buffer_size_def evbuffer_get_length_def to_string_def Buffer_reader_def Buffer_data_def
      evbuffer_pullup_def)

text \<open>
  C1, amended: a \<open>to_socket\<close> call that returns the count \<open>k\<close> has removed
  exactly the first \<open>k\<close> bytes, the ones it wrote: \<open>k\<close> is at most the old size,
  the size has decreased by \<open>k\<close>, and the unsent remainder is intact and in order.
  \<open>to_socket\<close> itself neither drains nor restores anything: the store is left as
  \<open>evbuffer_write_atmost\<close> leaves it. A call that sets an error returns 0 and leaves
  the buffer as it was.
\<close>

theorem to_socket_drains_written:
  "to_socket b sockfd n = ((k, err), b') \<Longrightarrow>
     k \<le> Buffer_size b
     \<and> Buffer_size b' = Buffer_size b - k
     \<and> to_string Buffer_reader b' = drop k (to_string Buffer_reader b)
     \<and> ev_buf b' = snd (evbuffer_write_atmost (ev_buf b) sockfd (to_ssize n))
     \<and> (err \<noteq> None \<longrightarrow> k = 0 \<and> b' = b)"
proof -
  assume a: "to_socket b sockfd n = ((k, err), b')"
  obtain res e buf' where w:
    "evbuffer_write_atmost (ev_buf b) sockfd (to_ssize n) = ((res, e), buf')"
    by (metis surj_pair)
  note r = evbuffer_write_atmost_result [OF w]
  from a w have k: "k = (if 0 \<le> res then nat res else 0)"
    and b': "b' = b\<lparr>ev_buf := buf'\<rparr>"
    and err: "err \<noteq> None \<longrightarrow> res < 0"
    by (auto simp: to_socket_def Let_def split: if_splits)
  have d: "ev_data (ev_buf b') = drop k (ev_data (ev_buf b))"
    using r(2) by (simp add: b' k)
  have "k \<le> Buffer_size b"
    using r(1) by (auto simp add: k Buffer_size_content)
  moreover have "Buffer_size b' = Buffer_size b - k"
    by (simp add: Buffer_size_content d)
  moreover have "to_string Buffer_reader b' = drop k (to_string Buffer_reader b)"
    by (simp add: Buffer_content d)
  moreover have "ev_buf b' = snd (evbuffer_write_atmost (ev_buf b) sockfd (to_ssize n))"
    by (simp add: b' w)
  moreover have "err \<noteq> None \<longrightarrow> k = 0 \<and> b' = b"
    using err r(3) by (auto simp: k b')
  ultimately show ?thesis by blast
qed

theorem to_socket_drains_written_witness:
  "to_socket (Buffer_from [1, 2, 3]) (Accepts 2) 3 = ((2, None), Buffer_from [3])
   \<and> Buffer_size (Buffer_from [3]) = Buffer_size (Buffer_from [1, 2, 3]) - 2
   \<and> to_string Buffer_reader (Buffer_from [3]) = drop 2 (to_string Buffer_reader (Buffer_from [1, 2, 3]))"
proof -
  have run: "to_socket (Buffer_from [1, 2, 3]) (Accepts 2) 3 = ((2, None), Buffer_from [3])"
    by (simp add: to_socket_def evbuffer_write_atmost_def Let_def evbuffer_drain_def 
      Buffer_from_def add_def Buffer_writer_def Buffer_reserve_space_def Buffer_copy_n_def
      Buffer_commit_space_def evbuffer_reserve_space_def evbuffer_commit_space_def
      overwrite_def Buffer_default_def evbuffer_new_def to_ssize_def chain_append_def)
  from to_socket_drains_written [OF run] run show ?thesis by simp
qed

text \<open>
  C2: \<open>add_uint8\<close>, \<open>add_uint16\<close>, \<open>add_uint32\<close> and \<open>add_uint64\<close> append
  the 1, 2, 4 and 8 bytes of the value in big-endian order, on a little-endian and on a
  big-endian host, to a \<open>Buffer\<close> and to a \<open>SmallBuffer\<close>, and the size grows by
  that many. On a buffer that was empty, the decoder of the same width called next
  returns the value and decreases the size by the width. \<open>add_uint32(456)\<close> on a new
  \<open>Buffer\<close> gives the bytes \<open>00 00 01 C8\<close>; \<open>to_uint32()\<close> then returns 456 and
  leaves the size 0.
\<close>

theorem scalar_codec_roundtrip:
  "to_string Buffer_reader (add_uint8 Buffer_writer x8 b)
       = to_string Buffer_reader b @ [x8]
   \<and> to_string Buffer_reader (add_uint16 e Buffer_writer x16 b)
       = to_string Buffer_reader b @ [ucast (drop_bit 8 x16), ucast x16]
   \<and> to_string Buffer_reader (add_uint32 e Buffer_writer x32 b)
       = to_string Buffer_reader b @ [ucast (drop_bit 24 x32), ucast (drop_bit 16 x32), ucast (drop_bit 8 x32), ucast x32]
   \<and> to_string Buffer_reader (add_uint64 e Buffer_writer x64 b)
       = to_string Buffer_reader b @ [ucast (drop_bit 56 x64), ucast (drop_bit 48 x64), ucast (drop_bit 40 x64),
            ucast (drop_bit 32 x64), ucast (drop_bit 24 x64), ucast (drop_bit 16 x64),
            ucast (drop_bit 8 x64), ucast x64]
   \<and> Buffer_size (add_uint8 Buffer_writer x8 b) = Buffer_size b + 1
   \<and> Buffer_size (add_uint16 e Buffer_writer x16 b) = Buffer_size b + 2
   \<and> Buffer_size (add_uint32 e Buffer_writer x32 b) = Buffer_size b + 4
   \<and> Buffer_size (add_uint64 e Buffer_writer x64 b) = Buffer_size b + 8
   \<and> (Buffer_size b = 0 \<longrightarrow>
       fst (to_uint8 e Buffer_reader (add_uint8 Buffer_writer x8 b)) = x8
     \<and> Buffer_size (snd (to_uint8 e Buffer_reader (add_uint8 Buffer_writer x8 b)))
         = Buffer_size (add_uint8 Buffer_writer x8 b) - 1
     \<and> fst (to_uint16 e Buffer_reader (add_uint16 e Buffer_writer x16 b)) = x16
     \<and> Buffer_size (snd (to_uint16 e Buffer_reader (add_uint16 e Buffer_writer x16 b)))
         = Buffer_size (add_uint16 e Buffer_writer x16 b) - 2
     \<and> fst (to_uint32 e Buffer_reader (add_uint32 e Buffer_writer x32 b)) = x32
     \<and> Buffer_size (snd (to_uint32 e Buffer_reader (add_uint32 e Buffer_writer x32 b)))
         = Buffer_size (add_uint32 e Buffer_writer x32 b) - 4
     \<and> fst (to_uint64 e Buffer_reader (add_uint64 e Buffer_writer x64 b)) = x64
     \<and> Buffer_size (snd (to_uint64 e Buffer_reader (add_uint64 e Buffer_writer x64 b)))
         = Buffer_size (add_uint64 e Buffer_writer x64 b) - 8)
   \<and> (SmallBuffer_inv s \<longrightarrow>
       to_string SmallBuffer_reader (add_uint8 (SmallBuffer_writer g) x8 s)
         = to_string SmallBuffer_reader s @ [x8]
     \<and> to_string SmallBuffer_reader (add_uint16 e (SmallBuffer_writer g) x16 s)
         = to_string SmallBuffer_reader s @ [ucast (drop_bit 8 x16), ucast x16]
     \<and> to_string SmallBuffer_reader (add_uint32 e (SmallBuffer_writer g) x32 s)
         = to_string SmallBuffer_reader s @ [ucast (drop_bit 24 x32), ucast (drop_bit 16 x32), ucast (drop_bit 8 x32), ucast x32]
     \<and> to_string SmallBuffer_reader (add_uint64 e (SmallBuffer_writer g) x64 s)
         = to_string SmallBuffer_reader s @ [ucast (drop_bit 56 x64), ucast (drop_bit 48 x64), ucast (drop_bit 40 x64),
            ucast (drop_bit 32 x64), ucast (drop_bit 24 x64), ucast (drop_bit 16 x64),
            ucast (drop_bit 8 x64), ucast x64]
     \<and> SmallBuffer_size (add_uint8 (SmallBuffer_writer g) x8 s) = SmallBuffer_size s + 1
     \<and> SmallBuffer_size (add_uint16 e (SmallBuffer_writer g) x16 s) = SmallBuffer_size s + 2
     \<and> SmallBuffer_size (add_uint32 e (SmallBuffer_writer g) x32 s) = SmallBuffer_size s + 4
     \<and> SmallBuffer_size (add_uint64 e (SmallBuffer_writer g) x64 s) = SmallBuffer_size s + 8
     \<and> (SmallBuffer_size s = 0 \<longrightarrow>
         fst (to_uint8 e SmallBuffer_reader (add_uint8 (SmallBuffer_writer g) x8 s)) = x8
       \<and> SmallBuffer_size (snd (to_uint8 e SmallBuffer_reader (add_uint8 (SmallBuffer_writer g) x8 s)))
           = SmallBuffer_size (add_uint8 (SmallBuffer_writer g) x8 s) - 1
       \<and> fst (to_uint16 e SmallBuffer_reader (add_uint16 e (SmallBuffer_writer g) x16 s)) = x16
       \<and> SmallBuffer_size (snd (to_uint16 e SmallBuffer_reader (add_uint16 e (SmallBuffer_writer g) x16 s)))
           = SmallBuffer_size (add_uint16 e (SmallBuffer_writer g) x16 s) - 2
       \<and> fst (to_uint32 e SmallBuffer_reader (add_uint32 e (SmallBuffer_writer g) x32 s)) = x32
       \<and> SmallBuffer_size (snd (to_uint32 e SmallBuffer_reader (add_uint32 e (SmallBuffer_writer g) x32 s)))
           = SmallBuffer_size (add_uint32 e (SmallBuffer_writer g) x32 s) - 4
       \<and> fst (to_uint64 e SmallBuffer_reader (add_uint64 e (SmallBuffer_writer g) x64 s)) = x64
       \<and> SmallBuffer_size (snd (to_uint64 e SmallBuffer_reader (add_uint64 e (SmallBuffer_writer g) x64 s)))
           = SmallBuffer_size (add_uint64 e (SmallBuffer_writer g) x64 s) - 8))
   \<and> to_string Buffer_reader (add_uint32 e Buffer_writer 456 Buffer_default) = [0x00, 0x00, 0x01, 0xC8]
   \<and> fst (to_uint32 e Buffer_reader (add_uint32 e Buffer_writer 456 Buffer_default)) = 456
   \<and> Buffer_size (snd (to_uint32 e Buffer_reader (add_uint32 e Buffer_writer 456 Buffer_default))) = 0"
proof -
  have BA: "to_string Buffer_reader (add_uint8 Buffer_writer x8 b)
         = to_string Buffer_reader b @ [x8]
     \<and> to_string Buffer_reader (add_uint16 e Buffer_writer x16 b)
         = to_string Buffer_reader b @ [ucast (drop_bit 8 x16), ucast x16]
     \<and> to_string Buffer_reader (add_uint32 e Buffer_writer x32 b)
         = to_string Buffer_reader b @ [ucast (drop_bit 24 x32), ucast (drop_bit 16 x32), ucast (drop_bit 8 x32), ucast x32]
     \<and> to_string Buffer_reader (add_uint64 e Buffer_writer x64 b)
         = to_string Buffer_reader b @ [ucast (drop_bit 56 x64), ucast (drop_bit 48 x64), ucast (drop_bit 40 x64),
              ucast (drop_bit 32 x64), ucast (drop_bit 24 x64), ucast (drop_bit 16 x64),
              ucast (drop_bit 8 x64), ucast x64]
     \<and> Buffer_size (add_uint8 Buffer_writer x8 b) = Buffer_size b + 1
     \<and> Buffer_size (add_uint16 e Buffer_writer x16 b) = Buffer_size b + 2
     \<and> Buffer_size (add_uint32 e Buffer_writer x32 b) = Buffer_size b + 4
     \<and> Buffer_size (add_uint64 e Buffer_writer x64 b) = Buffer_size b + 8"
    by (simp add: add_uint8_bytes add_uint16_bytes add_uint32_bytes add_uint64_bytes
        Buffer_add_content Buffer_add_size be_bytes_explicit)
  have BR: "fst (to_uint8 e Buffer_reader (add_uint8 Buffer_writer x8 b)) = x8
     \<and> Buffer_size (snd (to_uint8 e Buffer_reader (add_uint8 Buffer_writer x8 b)))
         = Buffer_size (add_uint8 Buffer_writer x8 b) - 1
     \<and> fst (to_uint16 e Buffer_reader (add_uint16 e Buffer_writer x16 b)) = x16
     \<and> Buffer_size (snd (to_uint16 e Buffer_reader (add_uint16 e Buffer_writer x16 b)))
         = Buffer_size (add_uint16 e Buffer_writer x16 b) - 2
     \<and> fst (to_uint32 e Buffer_reader (add_uint32 e Buffer_writer x32 b)) = x32
     \<and> Buffer_size (snd (to_uint32 e Buffer_reader (add_uint32 e Buffer_writer x32 b)))
         = Buffer_size (add_uint32 e Buffer_writer x32 b) - 4
     \<and> fst (to_uint64 e Buffer_reader (add_uint64 e Buffer_writer x64 b)) = x64
     \<and> Buffer_size (snd (to_uint64 e Buffer_reader (add_uint64 e Buffer_writer x64 b)))
         = Buffer_size (add_uint64 e Buffer_writer x64 b) - 8"
    if "Buffer_size b = 0"
    by (simp add: Buffer_roundtrip8 [OF that] Buffer_roundtrip16 [OF that]
        Buffer_roundtrip32 [OF that] Buffer_roundtrip64 [OF that])
      (simp add: add_uint8_bytes add_uint16_bytes add_uint32_bytes add_uint64_bytes
        Buffer_add_size that Buffer_drain_all_after_data)
  have SA: "to_string SmallBuffer_reader (add_uint8 (SmallBuffer_writer g) x8 s)
         = to_string SmallBuffer_reader s @ [x8]
     \<and> to_string SmallBuffer_reader (add_uint16 e (SmallBuffer_writer g) x16 s)
         = to_string SmallBuffer_reader s @ [ucast (drop_bit 8 x16), ucast x16]
     \<and> to_string SmallBuffer_reader (add_uint32 e (SmallBuffer_writer g) x32 s)
         = to_string SmallBuffer_reader s @ [ucast (drop_bit 24 x32), ucast (drop_bit 16 x32), ucast (drop_bit 8 x32), ucast x32]
     \<and> to_string SmallBuffer_reader (add_uint64 e (SmallBuffer_writer g) x64 s)
         = to_string SmallBuffer_reader s @ [ucast (drop_bit 56 x64), ucast (drop_bit 48 x64), ucast (drop_bit 40 x64),
            ucast (drop_bit 32 x64), ucast (drop_bit 24 x64), ucast (drop_bit 16 x64),
            ucast (drop_bit 8 x64), ucast x64]
     \<and> SmallBuffer_size (add_uint8 (SmallBuffer_writer g) x8 s) = SmallBuffer_size s + 1
     \<and> SmallBuffer_size (add_uint16 e (SmallBuffer_writer g) x16 s) = SmallBuffer_size s + 2
     \<and> SmallBuffer_size (add_uint32 e (SmallBuffer_writer g) x32 s) = SmallBuffer_size s + 4
     \<and> SmallBuffer_size (add_uint64 e (SmallBuffer_writer g) x64 s) = SmallBuffer_size s + 8"
    if "SmallBuffer_inv s"
    by (simp add: add_uint8_bytes add_uint16_bytes add_uint32_bytes add_uint64_bytes
        SmallBuffer_add_content [OF that] SmallBuffer_add_size be_bytes_explicit)
  have SR: "fst (to_uint8 e SmallBuffer_reader (add_uint8 (SmallBuffer_writer g) x8 s)) = x8
     \<and> SmallBuffer_size (snd (to_uint8 e SmallBuffer_reader (add_uint8 (SmallBuffer_writer g) x8 s)))
           = SmallBuffer_size (add_uint8 (SmallBuffer_writer g) x8 s) - 1
     \<and> fst (to_uint16 e SmallBuffer_reader (add_uint16 e (SmallBuffer_writer g) x16 s)) = x16
     \<and> SmallBuffer_size (snd (to_uint16 e SmallBuffer_reader (add_uint16 e (SmallBuffer_writer g) x16 s)))
           = SmallBuffer_size (add_uint16 e (SmallBuffer_writer g) x16 s) - 2
     \<and> fst (to_uint32 e SmallBuffer_reader (add_uint32 e (SmallBuffer_writer g) x32 s)) = x32
     \<and> SmallBuffer_size (snd (to_uint32 e SmallBuffer_reader (add_uint32 e (SmallBuffer_writer g) x32 s)))
           = SmallBuffer_size (add_uint32 e (SmallBuffer_writer g) x32 s) - 4
     \<and> fst (to_uint64 e SmallBuffer_reader (add_uint64 e (SmallBuffer_writer g) x64 s)) = x64
     \<and> SmallBuffer_size (snd (to_uint64 e SmallBuffer_reader (add_uint64 e (SmallBuffer_writer g) x64 s)))
           = SmallBuffer_size (add_uint64 e (SmallBuffer_writer g) x64 s) - 8"
    if "SmallBuffer_size s = 0" and "SmallBuffer_inv s"
    by (simp add: SmallBuffer_roundtrip8 [OF that] SmallBuffer_roundtrip16 [OF that]
        SmallBuffer_roundtrip32 [OF that] SmallBuffer_roundtrip64 [OF that])
      (simp add: add_uint8_bytes add_uint16_bytes add_uint32_bytes add_uint64_bytes
        SmallBuffer_add_size that SmallBuffer_drain_all)
  have z: "Buffer_size Buffer_default = 0"
    by (simp add: Buffer_size_content Buffer_default_def evbuffer_new_def)
  have EX: "to_string Buffer_reader (add_uint32 e Buffer_writer 456 Buffer_default) = [0x00, 0x00, 0x01, 0xC8]
     \<and> fst (to_uint32 e Buffer_reader (add_uint32 e Buffer_writer 456 Buffer_default)) = 456
     \<and> Buffer_size (snd (to_uint32 e Buffer_reader (add_uint32 e Buffer_writer 456 Buffer_default))) = 0"
    by (simp add: Buffer_roundtrip32 [OF z])
      (simp add: add_uint32_bytes Buffer_add_content Buffer_add_size be_bytes_explicit
        Buffer_empty_content [OF z] z Buffer_drain_all_after_data)
  from BA BR SA SR EX show ?thesis
    by blast
qed

theorem scalar_codec_roundtrip_witness:
  "Buffer_size Buffer_default = 0
   \<and> SmallBuffer_inv (SmallBuffer_default 2)
   \<and> SmallBuffer_size (SmallBuffer_default 2) = 0
   \<and> to_string Buffer_reader (add_uint16 LittleEndian Buffer_writer 0x1234 Buffer_default) = [0x12, 0x34]
   \<and> fst (to_uint16 LittleEndian Buffer_reader (add_uint16 LittleEndian Buffer_writer 0x1234 Buffer_default))
       = 0x1234
   \<and> to_string SmallBuffer_reader
        (add_uint32 LittleEndian (SmallBuffer_writer (\<lambda>c r. 0)) 0x01020304 (SmallBuffer_default 2))
       = [1, 2, 3, 4]
   \<and> fst (to_uint32 LittleEndian SmallBuffer_reader
        (add_uint32 LittleEndian (SmallBuffer_writer (\<lambda>c r. 0)) 0x01020304 (SmallBuffer_default 2)))
       = 0x01020304
   \<and> SmallBuffer_size (snd (to_uint32 LittleEndian SmallBuffer_reader
        (add_uint32 LittleEndian (SmallBuffer_writer (\<lambda>c r. 0)) 0x01020304 (SmallBuffer_default 2))))
       = 0"
proof -
  have z: "Buffer_size Buffer_default = 0"
    by (simp add: Buffer_size_content Buffer_default_def evbuffer_new_def)
  have z': "SmallBuffer_size (SmallBuffer_default 2) = 0"
    by (simp add: SmallBuffer_size_def SmallBuffer_default_def)
  note e = Buffer_empty_content [OF z] SmallBuffer_empty_content [OF z']
  show ?thesis
    using scalar_codec_roundtrip [where b = Buffer_default and s = "SmallBuffer_default 2"
        and g = "\<lambda>c r. 0" and e = LittleEndian and ?x16.0 = "0x1234" and ?x32.0 = "0x01020304"]
      SmallBuffer_default_inv [of 2]
    by (simp add: z z' e)
qed




text \<open>
  C4, as the specification states it: a decoder called on a buffer that holds fewer bytes
  than the width returns a value with the available bytes in the low-order byte
  positions and zero in the others. It fails on the code: the bytes are copied to the
  lowest addresses of \<open>tmp\<close> and \<open>tmp\<close> is then read in network order, so they end
  up in the high-order positions. With the single byte \<open>01\<close>, \<open>to_uint16()\<close>
  returns \<open>0x0100\<close> on either host: the low-order byte is 0, the high-order byte is 1.
\<close>

theorem short_decode_low_order_counterexample:
  "Buffer_size (Buffer_from [0x01]) = 1
   \<and> fst (to_uint16 LittleEndian Buffer_reader (Buffer_from [0x01])) = 0x0100
   \<and> fst (to_uint16 BigEndian Buffer_reader (Buffer_from [0x01])) = 0x0100
   \<and> (ucast (fst (to_uint16 LittleEndian Buffer_reader (Buffer_from [0x01]))) :: byte) \<noteq> 0x01
   \<and> drop_bit 8 (fst (to_uint16 LittleEndian Buffer_reader (Buffer_from [0x01]))) \<noteq> 0
   \<and> Buffer_size (snd (to_uint16 LittleEndian Buffer_reader (Buffer_from [0x01]))) = 0"
proof -
  have c: "to_string Buffer_reader (Buffer_from [0x01]) = [0x01]"
    by (simp add: Buffer_from_def Buffer_content Buffer_add_data Buffer_default_def
        evbuffer_new_def)
  have s: "Buffer_size (Buffer_from [0x01]) = 1"
    by (simp add: Buffer_from_def Buffer_size_content Buffer_add_data
        Buffer_default_def evbuffer_new_def)
  have v: "to_uint16 e Buffer_reader (Buffer_from [0x01])
      = (0x0100, Buffer_drain 1 (Buffer_from [0x01]))" for e
    using to_uint16_value [OF Buffer_data_length, where b = "Buffer_from [0x01]" and e = e]
    by (simp add: c s Buffer_reader_simps Buffer_drain_after_data)
  show ?thesis
    by (simp add: v s Buffer_drain_all)
qed

text \<open>
  C4, amended: a decoder of width \<open>n\<close> bytes called on a buffer that holds
  \<open>k < n\<close> bytes drains exactly those \<open>k\<close> bytes, which leaves the buffer empty,
  and returns the value whose big-endian representation is the \<open>k\<close> available bytes
  followed by \<open>n - k\<close> zero bytes: the available bytes occupy the high-order byte
  positions, in order, and the remaining low-order bytes are zero.
\<close>

theorem short_decode_fills_high_bytes:
  "(Buffer_size b < 1 \<longrightarrow>
       to_uint8 e Buffer_reader b
         = (push_bit (8 * (1 - Buffer_size b)) (word_of_le (rev (to_string Buffer_reader b))),
            Buffer_drain (Buffer_size b) b))
   \<and> (Buffer_size b < 2 \<longrightarrow>
       to_uint16 e Buffer_reader b
         = (push_bit (8 * (2 - Buffer_size b)) (word_of_le (rev (to_string Buffer_reader b))),
            Buffer_drain (Buffer_size b) b))
   \<and> (Buffer_size b < 4 \<longrightarrow>
       to_uint32 e Buffer_reader b
         = (push_bit (8 * (4 - Buffer_size b)) (word_of_le (rev (to_string Buffer_reader b))),
            Buffer_drain (Buffer_size b) b))
   \<and> (Buffer_size b < 8 \<longrightarrow>
       to_uint64 e Buffer_reader b
         = (push_bit (8 * (8 - Buffer_size b)) (word_of_le (rev (to_string Buffer_reader b))),
            Buffer_drain (Buffer_size b) b))
   \<and> Buffer_size (Buffer_drain (Buffer_size b) b) = 0
   \<and> (SmallBuffer_inv s \<longrightarrow>
       (SmallBuffer_size s < 1 \<longrightarrow>
         to_uint8 e SmallBuffer_reader s
           = (push_bit (8 * (1 - SmallBuffer_size s)) (word_of_le (rev (to_string SmallBuffer_reader s))),
              SmallBuffer_drain (SmallBuffer_size s) s))
     \<and> (SmallBuffer_size s < 2 \<longrightarrow>
         to_uint16 e SmallBuffer_reader s
           = (push_bit (8 * (2 - SmallBuffer_size s)) (word_of_le (rev (to_string SmallBuffer_reader s))),
              SmallBuffer_drain (SmallBuffer_size s) s))
     \<and> (SmallBuffer_size s < 4 \<longrightarrow>
         to_uint32 e SmallBuffer_reader s
           = (push_bit (8 * (4 - SmallBuffer_size s)) (word_of_le (rev (to_string SmallBuffer_reader s))),
              SmallBuffer_drain (SmallBuffer_size s) s))
     \<and> (SmallBuffer_size s < 8 \<longrightarrow>
         to_uint64 e SmallBuffer_reader s
           = (push_bit (8 * (8 - SmallBuffer_size s)) (word_of_le (rev (to_string SmallBuffer_reader s))),
              SmallBuffer_drain (SmallBuffer_size s) s)))
   \<and> SmallBuffer_size (SmallBuffer_drain (SmallBuffer_size s) s) = 0"
proof -
  have t: "n \<le> m \<Longrightarrow> min m n = n" "length (to_string Buffer_reader b) < m \<Longrightarrow> take m (to_string Buffer_reader b) = to_string Buffer_reader b"
    for n m :: nat
    by simp_all
  have lb: "length (to_string Buffer_reader b) = Buffer_size b"
    by (simp add: Buffer_content Buffer_size_content)
  have B: "(Buffer_size b < 1 \<longrightarrow>
       to_uint8 e Buffer_reader b
         = (push_bit (8 * (1 - Buffer_size b)) (word_of_le (rev (to_string Buffer_reader b))),
            Buffer_drain (Buffer_size b) b))
     \<and> (Buffer_size b < 2 \<longrightarrow>
       to_uint16 e Buffer_reader b
         = (push_bit (8 * (2 - Buffer_size b)) (word_of_le (rev (to_string Buffer_reader b))),
            Buffer_drain (Buffer_size b) b))
     \<and> (Buffer_size b < 4 \<longrightarrow>
       to_uint32 e Buffer_reader b
         = (push_bit (8 * (4 - Buffer_size b)) (word_of_le (rev (to_string Buffer_reader b))),
            Buffer_drain (Buffer_size b) b))
     \<and> (Buffer_size b < 8 \<longrightarrow>
       to_uint64 e Buffer_reader b
         = (push_bit (8 * (8 - Buffer_size b)) (word_of_le (rev (to_string Buffer_reader b))),
            Buffer_drain (Buffer_size b) b))"
    using Buffer_data_length [of b]
    by (simp add: to_uint8_value to_uint16_value to_uint32_value to_uint64_value
        Buffer_reader_simps lb min_def Buffer_drain_after_data)
  have ls: "length (to_string SmallBuffer_reader s) = SmallBuffer_size s" if "SmallBuffer_inv s"
    using that by (auto simp add: SmallBuffer_content SmallBuffer_size_def SmallBuffer_inv_def)
  have S: "(SmallBuffer_size s < 1 \<longrightarrow>
         to_uint8 e SmallBuffer_reader s
           = (push_bit (8 * (1 - SmallBuffer_size s)) (word_of_le (rev (to_string SmallBuffer_reader s))),
              SmallBuffer_drain (SmallBuffer_size s) s))
     \<and> (SmallBuffer_size s < 2 \<longrightarrow>
         to_uint16 e SmallBuffer_reader s
           = (push_bit (8 * (2 - SmallBuffer_size s)) (word_of_le (rev (to_string SmallBuffer_reader s))),
              SmallBuffer_drain (SmallBuffer_size s) s))
     \<and> (SmallBuffer_size s < 4 \<longrightarrow>
         to_uint32 e SmallBuffer_reader s
           = (push_bit (8 * (4 - SmallBuffer_size s)) (word_of_le (rev (to_string SmallBuffer_reader s))),
              SmallBuffer_drain (SmallBuffer_size s) s))
     \<and> (SmallBuffer_size s < 8 \<longrightarrow>
         to_uint64 e SmallBuffer_reader s
           = (push_bit (8 * (8 - SmallBuffer_size s)) (word_of_le (rev (to_string SmallBuffer_reader s))),
              SmallBuffer_drain (SmallBuffer_size s) s))"
    if "SmallBuffer_inv s"
    using SmallBuffer_data_length [OF that]
    by (simp add: to_uint8_value to_uint16_value to_uint32_value to_uint64_value
        SmallBuffer_reader_simps ls [OF that] min_def)
  from B S show ?thesis
    by (simp add: Buffer_drain_all SmallBuffer_drain_all)
qed

theorem short_decode_fills_high_bytes_witness:
  "Buffer_size (Buffer_from [0xAB, 0xCD, 0xEF]) < 4
   \<and> fst (to_uint32 LittleEndian Buffer_reader (Buffer_from [0xAB, 0xCD, 0xEF])) = 0xABCDEF00
   \<and> fst (to_uint64 BigEndian Buffer_reader (Buffer_from [0xAB, 0xCD, 0xEF])) = 0xABCDEF0000000000
   \<and> Buffer_size (snd (to_uint32 LittleEndian Buffer_reader (Buffer_from [0xAB, 0xCD, 0xEF]))) = 0
   \<and> Buffer_size Buffer_default < 1
   \<and> to_uint8 LittleEndian Buffer_reader Buffer_default = (0, Buffer_drain 0 Buffer_default)
   \<and> SmallBuffer_inv (add (SmallBuffer_writer (\<lambda>c r. 0)) [0xAB] (SmallBuffer_default 2))
   \<and> SmallBuffer_size (add (SmallBuffer_writer (\<lambda>c r. 0)) [0xAB] (SmallBuffer_default 2)) < 2
   \<and> fst (to_uint16 BigEndian SmallBuffer_reader
          (add (SmallBuffer_writer (\<lambda>c r. 0)) [0xAB] (SmallBuffer_default 2))) = 0xAB00"
proof -
  have c: "to_string Buffer_reader (Buffer_from d) = d" for d
    by (simp add: Buffer_from_def Buffer_content Buffer_add_data Buffer_default_def
        evbuffer_new_def)
  have s: "Buffer_size (Buffer_from d) = length d" for d
    by (simp add: Buffer_from_def Buffer_size_content Buffer_add_data
        Buffer_default_def evbuffer_new_def)
  have z: "Buffer_size Buffer_default = 0" "to_string Buffer_reader Buffer_default = []"
    by (simp_all add: Buffer_size_content Buffer_content Buffer_default_def evbuffer_new_def)
  have i: "SmallBuffer_inv (add (SmallBuffer_writer (\<lambda>c r. 0)) [0xAB] (SmallBuffer_default 2))"
    by (rule SmallBuffer_add_inv [OF SmallBuffer_default_inv])
  have e: "to_string SmallBuffer_reader (SmallBuffer_default 2) = []"
    "SmallBuffer_size (SmallBuffer_default 2) = 0"
    by (simp_all add: SmallBuffer_content SmallBuffer_size_def SmallBuffer_default_def)
  have c': "to_string SmallBuffer_reader (add (SmallBuffer_writer (\<lambda>c r. 0)) [0xAB] (SmallBuffer_default 2))
       = [0xAB]"
    "SmallBuffer_size (add (SmallBuffer_writer (\<lambda>c r. 0)) [0xAB] (SmallBuffer_default 2)) = 1"
    by (simp_all add: SmallBuffer_add_content [OF SmallBuffer_default_inv] SmallBuffer_add_size e)
  show ?thesis
    using short_decode_fills_high_bytes [where b = "Buffer_from [0xAB, 0xCD, 0xEF]"
        and e = LittleEndian and s = "add (SmallBuffer_writer (\<lambda>c r. 0)) [0xAB] (SmallBuffer_default 2)"]
      short_decode_fills_high_bytes [where b = "Buffer_from [0xAB, 0xCD, 0xEF]"
        and e = BigEndian and s = "add (SmallBuffer_writer (\<lambda>c r. 0)) [0xAB] (SmallBuffer_default 2)"]
      short_decode_fills_high_bytes [where b = Buffer_default and e = LittleEndian]
      i
    by (simp add: c s c' z Buffer_drain_all)
qed

text \<open>
  C5, as the specification states it: for every requested count \<open>n\<close>, a read from
  an endpoint that delivers bytes returns the count transferred with no error set. It
  fails on the code: \<open>add_socket\<close> passes \<open>static_cast<int>(n_bytes)\<close> to
  \<open>evbuffer_read\<close>. For \<open>n = 2 ^ 32\<close> the cast gives 0, \<open>evbuffer_read\<close>
  reads nothing and returns 0, and \<open>add_socket\<close> takes the 0 for the end of the
  stream: against an endpoint that has two bytes to deliver the call returns 0, sets
  the \<open>ENOTCONN\<close> error and leaves the buffer as it was.
\<close>

theorem add_socket_no_error_counterexample:
  "fst (add_socket (Buffer_from [7]) (Delivers [8, 9]) (2 ^ 32))
      = (0, Some \<lparr>err_code = ENOTCONN\<rparr>)
   \<and> fst (add_socket (Buffer_from [7]) (Delivers [8, 9]) (2 ^ 32)) \<noteq> (2, None)
   \<and> snd (fst (add_socket (Buffer_from [7]) (Delivers [8, 9]) (2 ^ 32))) \<noteq> None
   \<and> to_string Buffer_reader (snd (add_socket (Buffer_from [7]) (Delivers [8, 9]) (2 ^ 32))) = [7]"
proof -
  have c: "to_string Buffer_reader (Buffer_from [7]) = [7]"
    by (simp add: Buffer_from_def Buffer_content Buffer_add_data Buffer_default_def
        evbuffer_new_def)
  have "to_int (2 ^ 32) = 0"
    by (simp add: to_int_def)
  then have "add_socket (Buffer_from [7]) (Delivers [8, 9]) (2 ^ 32)
      = ((0, Some \<lparr>err_code = ENOTCONN\<rparr>), Buffer_from [7])"
    by (simp add: add_socket_def evbuffer_read_def tr_error_set_from_errno_def)
  then show ?thesis by (simp add: c)
qed

text \<open>
  C5, amended: against an endpoint that signalled the orderly close \<open>add_socket\<close>
  returns 0 and sets the error of code \<open>ENOTCONN\<close>; against a read that fails it
  returns 0 and sets the error of the platform code; both leave the buffer as it was.
  Against an endpoint that delivers the bytes \<open>bs\<close>, the amount asked for is
  \<open>n\<close> cast to \<open>int\<close>: at most \<open>n mod 2 ^ 32\<close> bytes are read when that
  number is below \<open>2 ^ 31\<close>, and the amount is left to the library when the cast
  is negative. When at least one byte is read, the call returns the number of bytes
  read with no error set, and these bytes are appended to the content; when none is
  read, as for \<open>n = 0\<close> and for every multiple of \<open>2 ^ 32\<close>, it returns 0, sets
  the \<open>ENOTCONN\<close> error and leaves the buffer as it was. In particular, for
  \<open>0 < n < 2 ^ 31\<close> and an endpoint that has at least one byte, the call returns
  \<open>min n (length bs)\<close>, possibly less than \<open>n\<close>, with no error set.
\<close>

theorem add_socket_outcomes:
  "add_socket b OrderlyClose n = ((0, Some \<lparr>err_code = ENOTCONN\<rparr>), b)
   \<and> add_socket b (ReadFails c) n = ((0, Some \<lparr>err_code = c\<rparr>), b)
   \<and> (let got = (if n mod 2 ^ 32 < 2 ^ 31 then take (n mod 2 ^ 32) bs else bs)
      in (got \<noteq> [] \<longrightarrow>
            fst (add_socket b (Delivers bs) n) = (length got, None)
          \<and> to_string Buffer_reader (snd (add_socket b (Delivers bs) n))
              = to_string Buffer_reader b @ got
          \<and> Buffer_size (snd (add_socket b (Delivers bs) n)) = Buffer_size b + length got)
       \<and> (got = [] \<longrightarrow>
            add_socket b (Delivers bs) n = ((0, Some \<lparr>err_code = ENOTCONN\<rparr>), b)))
   \<and> (0 < n \<and> n < 2 ^ 31 \<and> bs \<noteq> [] \<longrightarrow>
        fst (add_socket b (Delivers bs) n) = (min n (length bs), None)
      \<and> to_string Buffer_reader (snd (add_socket b (Delivers bs) n))
          = to_string Buffer_reader b @ take n bs)"
proof -
  have 1: "add_socket b OrderlyClose n = ((0, Some \<lparr>err_code = ENOTCONN\<rparr>), b)"
    by (simp add: add_socket_def evbuffer_read_def tr_error_set_from_errno_def)
  have 2: "add_socket b (ReadFails c) n = ((0, Some \<lparr>err_code = c\<rparr>), b)"
    by (simp add: add_socket_def evbuffer_read_def tr_error_set_def)
  note d = add_socket_delivers [of n bs b]
  have 3: "(let got = (if n mod 2 ^ 32 < 2 ^ 31 then take (n mod 2 ^ 32) bs else bs)
      in (got \<noteq> [] \<longrightarrow>
            fst (add_socket b (Delivers bs) n) = (length got, None)
          \<and> to_string Buffer_reader (snd (add_socket b (Delivers bs) n))
              = to_string Buffer_reader b @ got
          \<and> Buffer_size (snd (add_socket b (Delivers bs) n)) = Buffer_size b + length got)
       \<and> (got = [] \<longrightarrow>
            add_socket b (Delivers bs) n = ((0, Some \<lparr>err_code = ENOTCONN\<rparr>), b)))"
    unfolding Let_def using d by (simp add: Buffer_content Buffer_size_content)
  have 4: "fst (add_socket b (Delivers bs) n) = (min n (length bs), None)
      \<and> to_string Buffer_reader (snd (add_socket b (Delivers bs) n))
          = to_string Buffer_reader b @ take n bs"
    if "0 < n" "n < 2 ^ 31" "bs \<noteq> []"
  proof -
    have "n mod 2 ^ 32 = n" using that by simp
    with d(1,2) that show ?thesis
      by (simp add: Buffer_content min_def)
  qed
  from 1 2 3 4 show ?thesis by blast
qed

theorem add_socket_outcomes_witness:
  "add_socket (Buffer_from [7]) OrderlyClose 4 = ((0, Some \<lparr>err_code = ENOTCONN\<rparr>), Buffer_from [7])
   \<and> add_socket (Buffer_from [7]) (ReadFails 104) 4 = ((0, Some \<lparr>err_code = 104\<rparr>), Buffer_from [7])
   \<and> fst (add_socket (Buffer_from [7]) (Delivers [8, 9]) 4) = (2, None)
   \<and> to_string Buffer_reader (snd (add_socket (Buffer_from [7]) (Delivers [8, 9]) 4)) = [7, 8, 9]
   \<and> fst (add_socket (Buffer_from [7]) (Delivers [8, 9, 10]) 2) = (2, None)
   \<and> to_string Buffer_reader (snd (add_socket (Buffer_from [7]) (Delivers [8, 9, 10]) 2)) = [7, 8, 9]
   \<and> fst (add_socket (Buffer_from [7]) (Delivers [8, 9]) (2 ^ 31)) = (2, None)
   \<and> add_socket (Buffer_from [7]) (Delivers [8, 9]) (2 ^ 32)
       = ((0, Some \<lparr>err_code = ENOTCONN\<rparr>), Buffer_from [7])
   \<and> add_socket (Buffer_from [7]) (Delivers [8, 9]) 0
       = ((0, Some \<lparr>err_code = ENOTCONN\<rparr>), Buffer_from [7])"
proof -
  have c: "to_string Buffer_reader (Buffer_from d) = d" for d
    by (simp add: Buffer_from_def Buffer_content Buffer_add_data Buffer_default_def
        evbuffer_new_def)
  show ?thesis
    using add_socket_outcomes [of "Buffer_from [7]" 4 104 "[8, 9]"]
      add_socket_outcomes [of "Buffer_from [7]" 2 104 "[8, 9, 10]"]
      add_socket_outcomes [of "Buffer_from [7]" "2 ^ 31" 104 "[8, 9]"]
      add_socket_outcomes [of "Buffer_from [7]" "2 ^ 32" 104 "[8, 9]"]
      add_socket_outcomes [of "Buffer_from [7]" 0 104 "[8, 9]"]
    by (simp add: c Let_def)
qed

text \<open>
  C6: \<open>drain(d)\<close> removes exactly the first \<open>min(d, size())\<close> bytes of a
  \<open>Buffer\<close> and of a \<open>SmallBuffer\<close>: the size decreases by that amount and the
  rest stays in order. Draining more than there is empties the buffer; \<open>drain\<close> has
  no failing outcome.
\<close>

theorem drain_clamps:
  "Buffer_size (Buffer_drain d b) = Buffer_size b - min d (Buffer_size b)
   \<and> to_string Buffer_reader (Buffer_drain d b)
       = drop (min d (Buffer_size b)) (to_string Buffer_reader b)
   \<and> Buffer_size (Buffer_drain (Buffer_size b + d) b) = 0
   \<and> SmallBuffer_size (SmallBuffer_drain d s) = SmallBuffer_size s - min d (SmallBuffer_size s)
   \<and> to_string SmallBuffer_reader (SmallBuffer_drain d s)
       = drop (min d (SmallBuffer_size s)) (to_string SmallBuffer_reader s)
   \<and> SmallBuffer_size (SmallBuffer_drain (SmallBuffer_size s + d) s) = 0"
proof -
  have sz: "SmallBuffer_size (SmallBuffer_drain n s) = SmallBuffer_size s - min n (SmallBuffer_size s)"
    for n
    by (simp add: SmallBuffer_drain_def SmallBuffer_size_def Let_def)
  have "SmallBuffer_size (SmallBuffer_drain (SmallBuffer_size s + d) s) = 0"
    by (simp add: sz)
  moreover have "Buffer_size (Buffer_drain n b) = Buffer_size b - min n (Buffer_size b)" for n
    by (simp add: Buffer_size_content Buffer_drain_data)
  moreover have "to_string Buffer_reader (Buffer_drain d b)
       = drop (min d (Buffer_size b)) (to_string Buffer_reader b)"
    by (simp add: Buffer_content Buffer_size_content Buffer_drain_data min_def)
  ultimately show ?thesis
    by (simp add: sz SmallBuffer_drain_content)
qed

text \<open>
  C7: appending chunks of \<open>N + 1\<close> bytes in total to a new \<open>SmallBuffer<N>\<close>
  succeeds: the size is \<open>N + 1\<close>, \<open>to_string\<close> and \<open>to_buf\<close> give back all the
  bytes in order, and the storage, which started with the inline capacity \<open>N\<close>, has
  moved to a larger one. After the move \<open>add\<close> and \<open>drain\<close> act on the content
  as they do before it, and the content is the same for every inline capacity \<open>M\<close>.
\<close>

theorem SmallBuffer_spill_keeps_content:
  assumes "length (concat chunks) = N + 1"
  shows "SmallBuffer_size (fold (add (SmallBuffer_writer g)) chunks (SmallBuffer_default N)) = N + 1
   \<and> to_string SmallBuffer_reader (fold (add (SmallBuffer_writer g)) chunks (SmallBuffer_default N))
       = concat chunks
   \<and> fst (fst (to_buf SmallBuffer_reader (N + 1)
          (fold (add (SmallBuffer_writer g)) chunks (SmallBuffer_default N)))) = concat chunks
   \<and> sv_cap (sb_buf (SmallBuffer_default N)) = N
   \<and> N < sv_cap (sb_buf (fold (add (SmallBuffer_writer g)) chunks (SmallBuffer_default N)))
   \<and> to_string SmallBuffer_reader
        (add (SmallBuffer_writer g) xs (fold (add (SmallBuffer_writer g)) chunks (SmallBuffer_default N)))
       = concat chunks @ xs
   \<and> to_string SmallBuffer_reader
        (SmallBuffer_drain d (fold (add (SmallBuffer_writer g)) chunks (SmallBuffer_default N)))
       = drop d (concat chunks)
   \<and> to_string SmallBuffer_reader (fold (add (SmallBuffer_writer g)) chunks (SmallBuffer_default M))
       = concat chunks"
proof -
  define s where "s = fold (add (SmallBuffer_writer g)) chunks (SmallBuffer_default N)"
  note f = SmallBuffer_fold_add [OF SmallBuffer_default_inv, of g chunks]
  have inv: "SmallBuffer_inv s"
    and c: "to_string SmallBuffer_reader s = concat chunks"
    and sz: "SmallBuffer_size s = N + 1"
    using f [of N] assms by (simp_all add: s_def SmallBuffer_default_empty)
  have cap: "N < sv_cap (sb_buf s)"
    using SmallBuffer_size_le_cap [OF inv] sz by simp
  have rd: "fst (fst (to_buf SmallBuffer_reader (N + 1) s)) = concat chunks"
    using assms by (simp add: to_buf_content c)
  have ad: "to_string SmallBuffer_reader (add (SmallBuffer_writer g) xs s) = concat chunks @ xs"
    by (simp add: SmallBuffer_add_content [OF inv] c)
  have dr: "to_string SmallBuffer_reader (SmallBuffer_drain d s) = drop d (concat chunks)"
    using assms by (simp add: SmallBuffer_drain_content c sz min_def)
  have any: "to_string SmallBuffer_reader (fold (add (SmallBuffer_writer g)) chunks (SmallBuffer_default M))
       = concat chunks"
    using f [of M] by (simp add: SmallBuffer_default_empty)
  from sz c rd cap ad dr any show ?thesis
    unfolding s_def by (simp add: SmallBuffer_default_empty)
qed

theorem SmallBuffer_spill_keeps_content_witness:
  "length (concat [[1, 2, 3], [4, 5 :: byte]]) = 4 + 1
   \<and> SmallBuffer_size (fold (add (SmallBuffer_writer (\<lambda>c r. 2 * c))) [[1, 2, 3], [4, 5]]
        (SmallBuffer_default 4)) = 5
   \<and> to_string SmallBuffer_reader (fold (add (SmallBuffer_writer (\<lambda>c r. 2 * c))) [[1, 2, 3], [4, 5]]
        (SmallBuffer_default 4)) = [1, 2, 3, 4, 5]
   \<and> sv_cap (sb_buf (fold (add (SmallBuffer_writer (\<lambda>c r. 2 * c))) [[1, 2, 3], [4, 5]]
        (SmallBuffer_default 4))) = 8"
proof -
  have h: "length (concat [[1, 2, 3], [4, 5 :: byte]]) = 4 + 1"
    by simp
  have cap: "sv_cap (sb_buf (fold (add (SmallBuffer_writer (\<lambda>c r. 2 * c))) [[1, 2, 3], [4, 5]]
        (SmallBuffer_default 4))) = 8"
    by (simp add: add_def SmallBuffer_writer_def SmallBuffer_reserve_space_def
        SmallBuffer_copy_n_def SmallBuffer_commit_space_def sv_resize_def overwrite_def
        SmallBuffer_default_def sv_new_def Let_def)
  from SmallBuffer_spill_keeps_content [OF h, of "\<lambda>c r. 2 * c"] cap show ?thesis
    by simp
qed

text \<open>
  C8: for every buffer behind the reader interface and every needle,
  \<open>starts_with(needle)\<close> is true if and only if the needle is empty, or it is no
  longer than \<open>size()\<close> and the first \<open>len(needle)\<close> bytes of the content equal
  it; it is false whenever the needle is longer than \<open>size()\<close>.
\<close>

theorem starts_with_iff:
  "(starts_with R needle b \<longleftrightarrow>
      needle = [] \<or>
      (length needle \<le> rd_size R b \<and> take (length needle) (to_string R b) = needle))
   \<and> (rd_size R b < length needle \<longrightarrow> \<not> starts_with R needle b)"
  by (auto simp: starts_with_def to_string_def std_equal_take Let_def min_def)


theorem starts_with_iff_witness:
  "starts_with Buffer_reader [1, 2] (Buffer_from [1, 2, 3])
   \<and> \<not> starts_with Buffer_reader [2] (Buffer_from [1, 2, 3])
   \<and> rd_size Buffer_reader (Buffer_from [1]) < length [1 :: byte, 2]
   \<and> \<not> starts_with Buffer_reader [1, 2] (Buffer_from [1])"
proof -
  have c: "to_string Buffer_reader (Buffer_from d) = d" for d
    by (simp add: Buffer_from_def Buffer_content Buffer_add_data Buffer_default_def
        evbuffer_new_def)
  have s: "rd_size Buffer_reader (Buffer_from d) = length d" for d
    by (simp add: Buffer_from_def Buffer_reader_def Buffer_size_content Buffer_add_data
        Buffer_default_def evbuffer_new_def)
  show ?thesis
    using starts_with_iff [of Buffer_reader "[1, 2]" "Buffer_from [1, 2, 3]"]
      starts_with_iff [of Buffer_reader "[2]" "Buffer_from [1, 2, 3]"]
      starts_with_iff [of Buffer_reader "[1, 2]" "Buffer_from [1]"]
    by (simp add: c s)
qed

text \<open>
  C9: \<open>to_string()\<close> returns all \<open>size()\<close> bytes of the buffer, in order, and it
  does not drain. For \<open>Buffer\<close> the call goes through \<open>data()\<close>, that is
  \<open>evbuffer_pullup\<close>, which may rebuild the chain of segments as one segment: the
  object after the call has the \<open>size()\<close> and the content it had before, a second
  \<open>to_string()\<close> returns the same string, and \<open>to_buf\<close> and \<open>drain\<close> after
  the call find the same bytes as before it. For \<open>SmallBuffer\<close> the object after
  the call is the object before. The string follows the appends: after \<open>add(xs)\<close>
  it is the string before followed by \<open>xs\<close>.
\<close>

theorem to_string_copies_all:
  "fst (to_string_call Buffer_reader b) = concat (ev_chain (ev_buf b))
   \<and> length (fst (to_string_call Buffer_reader b)) = Buffer_size b
   \<and> fst (to_string_call Buffer_reader b) = to_string Buffer_reader b
   \<and> Buffer_size (snd (to_string_call Buffer_reader b)) = Buffer_size b
   \<and> to_string Buffer_reader (snd (to_string_call Buffer_reader b)) = to_string Buffer_reader b
   \<and> fst (to_string_call Buffer_reader (snd (to_string_call Buffer_reader b)))
       = fst (to_string_call Buffer_reader b)
   \<and> fst (fst (to_buf Buffer_reader n (snd (to_string_call Buffer_reader b))))
       = fst (fst (to_buf Buffer_reader n b))
   \<and> fst (to_string_call SmallBuffer_reader s) = take (committed_size s) (sv_elems (sb_buf s))
   \<and> (SmallBuffer_inv s \<longrightarrow> length (fst (to_string_call SmallBuffer_reader s)) = SmallBuffer_size s)
   \<and> fst (to_string_call SmallBuffer_reader s) = to_string SmallBuffer_reader s
   \<and> snd (to_string_call SmallBuffer_reader s) = s
   \<and> fst (to_string_call Buffer_reader
        (push_back Buffer_writer 0x69 (push_back Buffer_writer 0x48 Buffer_default))) = [0x48, 0x69]
   \<and> Buffer_size (snd (to_string_call Buffer_reader
        (push_back Buffer_writer 0x69 (push_back Buffer_writer 0x48 Buffer_default)))) = 2
   \<and> fst (to_string_call Buffer_reader (add Buffer_writer xs b))
       = fst (to_string_call Buffer_reader b) @ xs
   \<and> fst (to_string_call Buffer_reader (Buffer_drain d (snd (to_string_call Buffer_reader b))))
       = drop d (fst (to_string_call Buffer_reader b))"
proof -
  let ?b' = "snd (to_string_call Buffer_reader b)"
  have a: "ev_data (ev_buf ?b') = ev_data (ev_buf b)"
    by (simp add: Buffer_to_string_call Buffer_data_after)
  have 1: "fst (to_string_call Buffer_reader b) = concat (ev_chain (ev_buf b))"
    by (simp add: Buffer_to_string_call ev_data_def)
  have 2: "length (fst (to_string_call Buffer_reader b)) = Buffer_size b"
    by (simp add: Buffer_to_string_call Buffer_size_content)
  have 3: "fst (to_string_call Buffer_reader b) = to_string Buffer_reader b"
    by (simp add: Buffer_to_string_call Buffer_content)
  have 4: "Buffer_size ?b' = Buffer_size b"
    by (simp add: Buffer_size_content a)
  have 5: "to_string Buffer_reader ?b' = to_string Buffer_reader b"
    by (simp add: Buffer_content a)
  have 6: "fst (to_string_call Buffer_reader ?b') = fst (to_string_call Buffer_reader b)"
    using a by (simp add: Buffer_to_string_call)
  have 7: "fst (fst (to_buf Buffer_reader n ?b')) = fst (fst (to_buf Buffer_reader n b))"
    by (simp add: to_buf_content 5)
  have 8: "fst (to_string_call SmallBuffer_reader s) = take (committed_size s) (sv_elems (sb_buf s))"
    by (simp add: SmallBuffer_to_string_call)
  have 9: "SmallBuffer_inv s \<longrightarrow> length (fst (to_string_call SmallBuffer_reader s)) = SmallBuffer_size s"
    by (auto simp add: SmallBuffer_to_string_call SmallBuffer_inv_def SmallBuffer_size_def)
  have 10: "fst (to_string_call SmallBuffer_reader s) = to_string SmallBuffer_reader s"
    by (simp add: SmallBuffer_to_string_call SmallBuffer_content)
  have 11: "snd (to_string_call SmallBuffer_reader s) = s"
    by (simp add: SmallBuffer_to_string_call)
  have h: "ev_data (ev_buf (push_back Buffer_writer 0x69 (push_back Buffer_writer 0x48 Buffer_default)))
      = [0x48, 0x69]"
    by (simp add: push_back_def Buffer_add_data Buffer_default_def evbuffer_new_def)
  have 12: "fst (to_string_call Buffer_reader
        (push_back Buffer_writer 0x69 (push_back Buffer_writer 0x48 Buffer_default))) = [0x48, 0x69]"
    by (simp add: Buffer_to_string_call h)
  have 13: "Buffer_size (snd (to_string_call Buffer_reader
        (push_back Buffer_writer 0x69 (push_back Buffer_writer 0x48 Buffer_default)))) = 2"
    by (simp add: Buffer_to_string_call Buffer_size_content Buffer_data_after h)
  have 14: "fst (to_string_call Buffer_reader (add Buffer_writer xs b))
       = fst (to_string_call Buffer_reader b) @ xs"
    by (simp add: Buffer_to_string_call Buffer_add_data)
  have 15: "fst (to_string_call Buffer_reader (Buffer_drain d ?b'))
       = drop d (fst (to_string_call Buffer_reader b))"
    by (simp add: Buffer_to_string_call Buffer_drain_data Buffer_data_after)
  show ?thesis
    by (intro conjI 1 2 3 4 5 6 7 8 9 10 11 12 13 14 15)
qed

theorem to_string_copies_all_witness:
  "ev_chain (ev_buf (snd (add_socket (Buffer_from [1]) (Delivers [2, 3]) 4))) = [[1], [2, 3]]
   \<and> fst (to_string_call Buffer_reader (snd (add_socket (Buffer_from [1]) (Delivers [2, 3]) 4)))
       = [1, 2, 3]
   \<and> ev_chain (ev_buf (snd (to_string_call Buffer_reader
        (snd (add_socket (Buffer_from [1]) (Delivers [2, 3]) 4))))) = [[1, 2, 3]]
   \<and> Buffer_size (snd (to_string_call Buffer_reader
        (snd (add_socket (Buffer_from [1]) (Delivers [2, 3]) 4)))) = 3
   \<and> to_string Buffer_reader (snd (to_string_call Buffer_reader
        (snd (add_socket (Buffer_from [1]) (Delivers [2, 3]) 4)))) = [1, 2, 3]
   \<and> SmallBuffer_inv (add (SmallBuffer_writer (\<lambda>c r. 0)) [1, 2, 3] (SmallBuffer_default 2))
   \<and> fst (to_string_call SmallBuffer_reader
        (add (SmallBuffer_writer (\<lambda>c r. 0)) [1, 2, 3] (SmallBuffer_default 2))) = [1, 2, 3]
   \<and> length (fst (to_string_call SmallBuffer_reader
        (add (SmallBuffer_writer (\<lambda>c r. 0)) [1, 2, 3] (SmallBuffer_default 2))))
       = SmallBuffer_size (add (SmallBuffer_writer (\<lambda>c r. 0)) [1, 2, 3] (SmallBuffer_default 2))"
proof -
  let ?b = "snd (add_socket (Buffer_from [1]) (Delivers [2, 3]) 4)"
  let ?s = "add (SmallBuffer_writer (\<lambda>c r. 0)) [1, 2, 3] (SmallBuffer_default 2)"
  have f: "ev_buf (Buffer_from [1]) = \<lparr>ev_chain = [[1]], ev_space = [], ev_next = []\<rparr>"
    by (simp add: Buffer_from_def add_def Buffer_writer_def Buffer_reserve_space_def
        Buffer_copy_n_def Buffer_commit_space_def evbuffer_reserve_space_def
        evbuffer_commit_space_def overwrite_def Buffer_default_def evbuffer_new_def
        chain_append_def)
  have "to_int 4 = 4"
    by (simp add: to_int_def)
  then have b: "ev_buf ?b = \<lparr>ev_chain = [[1], [2, 3]], ev_space = [], ev_next = []\<rparr>"
    by (simp add: add_socket_def evbuffer_read_def f)
  have p: "ev_chain (ev_buf (snd (to_string_call Buffer_reader ?b))) = [[1, 2, 3]]"
    by (simp add: Buffer_to_string_call Buffer_data_def evbuffer_pullup_def b)
  have i: "SmallBuffer_inv ?s"
    by (rule SmallBuffer_add_inv [OF SmallBuffer_default_inv])
  have e: "to_string SmallBuffer_reader (SmallBuffer_default 2) = []"
    by (simp add: SmallBuffer_content SmallBuffer_default_def)
  have c: "to_string SmallBuffer_reader ?s = [1, 2, 3]"
    by (simp add: SmallBuffer_add_content [OF SmallBuffer_default_inv] e)
  have z: "Buffer_size ?b = 3" "to_string Buffer_reader ?b = [1, 2, 3]"
    by (simp_all add: Buffer_size_content Buffer_content b)
  note t = to_string_copies_all [of ?b 0 ?s]
  have 1: "ev_chain (ev_buf ?b) = [[1], [2, 3]]"
    by (simp add: b)
  have 2: "fst (to_string_call Buffer_reader ?b) = [1, 2, 3]"
    using t [THEN conjunct2, THEN conjunct2, THEN conjunct1] z(2) by simp
  have 3: "Buffer_size (snd (to_string_call Buffer_reader ?b)) = 3"
    using t [THEN conjunct2, THEN conjunct2, THEN conjunct2, THEN conjunct1] z(1) by simp
  have 4: "to_string Buffer_reader (snd (to_string_call Buffer_reader ?b)) = [1, 2, 3]"
    using t [THEN conjunct2, THEN conjunct2, THEN conjunct2, THEN conjunct2, THEN conjunct1] z(2) by simp
  have 5: "fst (to_string_call SmallBuffer_reader ?s) = [1, 2, 3]"
    using t [THEN conjunct2, THEN conjunct2, THEN conjunct2, THEN conjunct2, THEN conjunct2, THEN conjunct2, THEN conjunct2, THEN conjunct2, THEN conjunct2, THEN conjunct1] c by simp
  have 6: "length (fst (to_string_call SmallBuffer_reader ?s)) = SmallBuffer_size ?s"
    using t [THEN conjunct2, THEN conjunct2, THEN conjunct2, THEN conjunct2, THEN conjunct2, THEN conjunct2, THEN conjunct2, THEN conjunct2, THEN conjunct1] i by simp
  show ?thesis
    by (intro conjI 1 2 p 3 4 i 5 6)
qed

text \<open>
  C10: \<open>Buffer{d}\<close> is the default-constructed \<open>Buffer\<close> after \<open>add(d)\<close>;
  its size is \<open>len(d)\<close> and its content is \<open>d\<close>.
\<close>

theorem Buffer_from_is_add:
  "Buffer_from d = add Buffer_writer d Buffer_default
   \<and> Buffer_size (Buffer_from d) = length d
   \<and> to_string Buffer_reader (Buffer_from d) = d"
  by (simp add: Buffer_from_def Buffer_content Buffer_size_content Buffer_add_data
      Buffer_default_def evbuffer_new_def)

end
